theory Spec2Isabelle
  imports Main "HOL-Library.Char_ord" "HOL-Library.List_Lexorder"
begin

section \<open>Grade checker: strings and cells\<close>

text \<open>
  The embedding follows \<^verbatim>\<open>app.py\<close>: \<^verbatim>\<open>normalize_grade\<close>,
  \<^verbatim>\<open>read_roster_file\<close> and the second (superseding) \<^verbatim>\<open>compare_grades\<close>.
  Strings are ASCII: Python's \<^verbatim>\<open>str.strip\<close>, \<^verbatim>\<open>str.upper\<close>,
  \<^verbatim>\<open>str.lower\<close> and \<^verbatim>\<open>str.isnumeric\<close> are modelled on the
  characters 0..127, where whitespace is 9..13 and 28..32, the letters are a..z and A..Z
  and the numeric characters are the digits 0..9.
\<close>

definition isspace :: "char \<Rightarrow> bool" where
  "isspace c = (let n = (of_char c :: nat) in (9 \<le> n \<and> n \<le> 13) \<or> (28 \<le> n \<and> n \<le> 32))"

definition upper_char :: "char \<Rightarrow> char" where
  "upper_char c = (let n = (of_char c :: nat) in if 97 \<le> n \<and> n \<le> 122 then char_of (n - 32) else c)"

definition lower_char :: "char \<Rightarrow> char" where
  "lower_char c = (let n = (of_char c :: nat) in if 65 \<le> n \<and> n \<le> 90 then char_of (n + 32) else c)"

definition isdigit_char :: "char \<Rightarrow> bool" where
  "isdigit_char c = (let n = (of_char c :: nat) in 48 \<le> n \<and> n \<le> 57)"

definition upper :: "string \<Rightarrow> string" where
  "upper s = map upper_char s"

definition lower :: "string \<Rightarrow> string" where
  "lower s = map lower_char s"

definition strip :: "string \<Rightarrow> string" where
  "strip s = rev (dropWhile isspace (rev (dropWhile isspace s)))"

text \<open>\<^verbatim>\<open>str.isnumeric\<close>: at least one character, and every character numeric.\<close>

definition isnumeric :: "string \<Rightarrow> bool" where
  "isnumeric s = (s \<noteq> [] \<and> list_all isdigit_char s)"

text \<open>
  A cell of a data frame is a text or the missing value NaN. A number read from a sheet is
  represented by the text \<^verbatim>\<open>str\<close> gives it. \<^verbatim>\<open>astype(str)\<close> and
  \<^verbatim>\<open>str(...)\<close> turn NaN into the text \<^verbatim>\<open>nan\<close>.
\<close>

datatype cell = Str string | NaN

fun astype_str :: "cell \<Rightarrow> string" where
  "astype_str (Str s) = s"
| "astype_str NaN = ''nan''"

subsection \<open>normalize_grade\<close>

definition normalize_grade :: "cell \<Rightarrow> string" where
  "normalize_grade grade =
     (let g = upper (strip (astype_str grade))
      in if g \<in> set [''P'', ''PASS''] then ''PASS''
         else if g \<in> set [''ABSENT'', ''ABS''] then ''ABSENT''
         else g)"

subsection \<open>File names and number formatting\<close>

text \<open>
  \<^verbatim>\<open>os.path.basename\<close> keeps what follows the last slash;
  \<^verbatim>\<open>os.path.splitext(...)[0]\<close> cuts the name at its last dot, unless only
  dots precede that dot.
\<close>

definition basename :: "string \<Rightarrow> string" where
  "basename p = rev (takeWhile (\<lambda>c. c \<noteq> CHR ''/'') (rev p))"

definition splitext_root :: "string \<Rightarrow> string" where
  "splitext_root p =
     (if CHR ''.'' \<in> set p then
        (let root = rev (tl (dropWhile (\<lambda>c. c \<noteq> CHR ''.'') (rev p)))
         in if list_ex (\<lambda>c. c \<noteq> CHR ''.'') root then root else p)
      else p)"

definition base_name_of :: "string \<Rightarrow> string" where
  "base_name_of file_name = splitext_root (basename file_name)"

text \<open>\<^verbatim>\<open>str(n)\<close> of a count, as the f-string of the success message formats it.\<close>

fun str_nat :: "nat \<Rightarrow> string" where
  "str_nat n =
     (if n < 10 then [char_of (48 + n)]
      else str_nat (n div 10) @ [char_of (48 + n mod 10)])"

declare str_nat.simps [simp del]

section \<open>Tables\<close>

text \<open>
  \<^verbatim>\<open>pd.read_excel(path, header=None)\<close> gives a grid of cells;
  \<^verbatim>\<open>pd.read_csv(path)\<close> and \<^verbatim>\<open>pd.read_excel(path, header=h)\<close> give a
  table with column labels. A row shorter than the label list is padded with NaN. Either
  reader may raise instead; the caller tells \<^verbatim>\<open>ValueError\<close> from every other
  exception.
\<close>

type_synonym grid = "cell list list"

record table =
  columns :: "string list"
  rows :: "cell list list"

datatype exn = ValueError string | OtherError string

fun str_exn :: "exn \<Rightarrow> string" where
  "str_exn (ValueError m) = m"
| "str_exn (OtherError m) = m"

record 'a uploaded_file =
  name :: string
  getvalue :: 'a

type_synonym roster_file = "(exn + grid) uploaded_file"
type_synonym downloaded_file = "(exn + table) uploaded_file"

fun index_of :: "'a list \<Rightarrow> 'a \<Rightarrow> nat" where
  "index_of [] x = 0"
| "index_of (y # ys) x = (if x = y then 0 else Suc (index_of ys x))"

definition cell_at :: "cell list \<Rightarrow> nat \<Rightarrow> cell" where
  "cell_at row i = (if i < length row then row ! i else NaN)"

definition column :: "table \<Rightarrow> string \<Rightarrow> cell list" where
  "column df c = map (\<lambda>row. cell_at row (index_of (columns df) c)) (rows df)"

definition strip_columns :: "table \<Rightarrow> table" where
  "strip_columns df = df\<lparr>columns := map strip (columns df)\<rparr>"

subsection \<open>read_roster_file\<close>

definition id_variants :: "string set" where
  "id_variants = set [''SID'', ''STUDENT ID'']"

definition row_upper :: "cell list \<Rightarrow> string list" where
  "row_upper row = map (\<lambda>c. strip (upper (astype_str c))) row"

definition is_header_row :: "cell list \<Rightarrow> bool" where
  "is_header_row row =
     (''LETTER GRADE'' \<in> set (row_upper row) \<and> set (row_upper row) \<inter> id_variants \<noteq> {})"

text \<open>The loop over \<^verbatim>\<open>df_raw.iterrows()\<close>, from row index \<open>i\<close> on.\<close>

fun find_header_from :: "nat \<Rightarrow> grid \<Rightarrow> nat option" where
  "find_header_from i [] = None"
| "find_header_from i (row # rest) =
     (if is_header_row row then Some i else find_header_from (Suc i) rest)"

definition find_header_row :: "grid \<Rightarrow> nat option" where
  "find_header_row df_raw = find_header_from 0 df_raw"

text \<open>
  The second read, \<^verbatim>\<open>pd.read_excel(file_path, header=header_row)\<close>: the cells of
  the header row become the labels and the rows below it the data. pandas labels an empty
  header cell \<^verbatim>\<open>Unnamed: k\<close> and a repeated label \<^verbatim>\<open>X.1\<close>,
  \<^verbatim>\<open>X.2\<close>, and so on.
\<close>

definition header_label :: "nat \<Rightarrow> cell \<Rightarrow> string" where
  "header_label k c = (case c of Str s \<Rightarrow> s | NaN \<Rightarrow> ''Unnamed: '' @ str_nat k)"

fun mangle_dupe_cols :: "string list \<Rightarrow> string list \<Rightarrow> string list" where
  "mangle_dupe_cols seen [] = []"
| "mangle_dupe_cols seen (c # cs) =
     (let k = count_list seen c
      in (if k = 0 then c else c @ ''.'' @ str_nat k) # mangle_dupe_cols (seen @ [c]) cs)"

definition read_excel_header :: "grid \<Rightarrow> nat \<Rightarrow> table" where
  "read_excel_header df_raw h =
     (let header = (if h < length df_raw then df_raw ! h else [])
      in \<lparr>columns = mangle_dupe_cols [] (map (\<lambda>(k, c). header_label k c) (enumerate 0 header)),
          rows = drop (Suc h) df_raw\<rparr>)"

definition header_not_found :: "string \<Rightarrow> string" where
  "header_not_found file_path = ''Header row with required keywords not found in '' @ file_path"

definition read_roster_file :: "string \<Rightarrow> exn + grid \<Rightarrow> exn + table" where
  "read_roster_file file_path workbook =
     (case workbook of
        Inl e \<Rightarrow> Inl e
      | Inr df_raw \<Rightarrow>
          (case find_header_row df_raw of
             None \<Rightarrow> Inl (ValueError (header_not_found file_path))
           | Some header_row \<Rightarrow> Inr (read_excel_header df_raw header_row)))"

section \<open>The merged frame of one course\<close>

datatype merge_ind = left_only | right_only | both

record merged_row =
  sid_col :: cell
  Letter_Grade :: cell
  ID :: cell
  Approved_final_grade :: cell
  Withdrawn :: cell
  merge_indicator :: merge_ind

text \<open>The columns selected from each side, after the cleaning of lines 416 to 420.\<close>

definition clean_roster :: "table \<Rightarrow> string \<Rightarrow> (string \<times> string) list" where
  "clean_roster df_roster sid =
     zip (map (\<lambda>c. strip (astype_str c)) (column df_roster sid))
         (map (\<lambda>c. upper (strip (astype_str c))) (column df_roster ''Letter Grade''))"

definition withdrawn_column :: "table \<Rightarrow> cell list" where
  "withdrawn_column df_downloaded =
     (if ''Withdrawn'' \<in> set (columns df_downloaded) then column df_downloaded ''Withdrawn''
      else replicate (length (rows df_downloaded)) (Str []))"

definition clean_downloaded :: "table \<Rightarrow> (string \<times> string \<times> string) list" where
  "clean_downloaded df_downloaded =
     zip (map (\<lambda>c. strip (astype_str c)) (column df_downloaded ''ID''))
       (zip (map (\<lambda>c. upper (strip (astype_str c))) (column df_downloaded ''Approved final grade''))
            (map (\<lambda>c. upper (strip (astype_str c))) (withdrawn_column df_downloaded)))"

text \<open>
  \<^verbatim>\<open>pd.merge(..., how='outer', indicator=True)\<close>: every left row is paired with
  every right row of the same key, a left row without partner is kept with NaN on the right,
  the right rows without partner follow with NaN on the left, and the outer join orders the
  result by key, keeping this order among equal keys. The order by key is the one pandas
  documents for an outer join (releases before 2.2 kept the keys in the order of their first
  occurrence instead); the statements below concern the rows of the frame, their counts and
  their verdicts, not their order, and the example inputs list their keys in ascending
  order.
\<close>

definition both_row :: "string \<times> string \<Rightarrow> string \<times> string \<times> string \<Rightarrow> merged_row" where
  "both_row l r =
     \<lparr>sid_col = Str (fst l), Letter_Grade = Str (snd l), ID = Str (fst r),
      Approved_final_grade = Str (fst (snd r)), Withdrawn = Str (snd (snd r)),
      merge_indicator = both\<rparr>"

definition left_row :: "string \<times> string \<Rightarrow> merged_row" where
  "left_row l =
     \<lparr>sid_col = Str (fst l), Letter_Grade = Str (snd l), ID = NaN,
      Approved_final_grade = NaN, Withdrawn = NaN, merge_indicator = left_only\<rparr>"

definition right_row :: "string \<times> string \<times> string \<Rightarrow> merged_row" where
  "right_row r =
     \<lparr>sid_col = NaN, Letter_Grade = NaN, ID = Str (fst r),
      Approved_final_grade = Str (fst (snd r)), Withdrawn = Str (snd (snd r)),
      merge_indicator = right_only\<rparr>"

definition rows_for :: "(string \<times> string \<times> string) list \<Rightarrow> string \<times> string \<Rightarrow> merged_row list" where
  "rows_for right l =
     (case filter (\<lambda>r. fst r = fst l) right of
        [] \<Rightarrow> [left_row l]
      | partner # partners \<Rightarrow> map (both_row l) (partner # partners))"

definition combine_first :: "cell \<Rightarrow> cell \<Rightarrow> cell" where
  "combine_first a b = (case a of NaN \<Rightarrow> b | Str s \<Rightarrow> Str s)"

definition merge_key :: "merged_row \<Rightarrow> string" where
  "merge_key m = astype_str (combine_first (sid_col m) (ID m))"

definition pd_merge_outer ::
  "(string \<times> string) list \<Rightarrow> (string \<times> string \<times> string) list \<Rightarrow> merged_row list" where
  "pd_merge_outer left right =
     sort_key merge_key
       (concat (map (rows_for right) left) @
        map right_row (filter (\<lambda>r. fst r \<notin> set (map fst left)) right))"

text \<open>The columns that \<^verbatim>\<open>compare_grades\<close> adds to the merged frame.\<close>

definition ID_final :: "merged_row \<Rightarrow> string" where
  "ID_final m = strip (astype_str (combine_first (sid_col m) (ID m)))"

definition keep_id :: "merged_row \<Rightarrow> bool" where
  "keep_id m = (ID_final m \<noteq> [] \<and> lower (ID_final m) \<noteq> ''nan'')"

definition is_withdrawn :: "merged_row \<Rightarrow> bool" where
  "is_withdrawn m = (Approved_final_grade m = Str ''W'' \<or> Withdrawn m = Str ''WITHDRAWN'')"

definition norm_roster_grade :: "merged_row \<Rightarrow> string" where
  "norm_roster_grade m = normalize_grade (Letter_Grade m)"

definition norm_downloaded_grade :: "merged_row \<Rightarrow> string" where
  "norm_downloaded_grade m = normalize_grade (Approved_final_grade m)"

definition mismatch :: "merged_row \<Rightarrow> bool" where
  "mismatch m =
     (merge_indicator m = both \<and>
      ((norm_roster_grade m = ''ABSENT'' \<and> norm_downloaded_grade m \<noteq> ''F'') \<or>
       (norm_roster_grade m \<noteq> ''ABSENT'' \<and> norm_roster_grade m \<noteq> norm_downloaded_grade m)))"

definition matched :: "merged_row \<Rightarrow> bool" where
  "matched m = (\<not> mismatch m)"

text \<open>Lines 408 to 425: selection, cleaning, merge, and the filter on the identifier.\<close>

definition merged_frame :: "string \<Rightarrow> table \<Rightarrow> table \<Rightarrow> merged_row list" where
  "merged_frame sid df_roster df_downloaded =
     filter keep_id (pd_merge_outer (clean_roster df_roster sid) (clean_downloaded df_downloaded))"

section \<open>compare_grades\<close>

record result_row =
  row_course :: string
  row_ID_final :: string
  row_Letter_Grade :: cell
  row_Approved_final_grade :: cell
  row_matched :: bool
  row_is_withdrawn :: bool

definition result_row_of :: "string \<Rightarrow> merged_row \<Rightarrow> result_row" where
  "result_row_of base_name m =
     \<lparr>row_course = base_name, row_ID_final = ID_final m, row_Letter_Grade = Letter_Grade m,
      row_Approved_final_grade = Approved_final_grade m, row_matched = matched m,
      row_is_withdrawn = is_withdrawn m\<rparr>"

datatype status = success | error

text \<open>
  An entry of \<^verbatim>\<open>results\<close>. The dictionary of an error entry has no
  \<^verbatim>\<open>unmatched\<close> and no \<^verbatim>\<open>withdrawn\<close> key and its data is
  \<^verbatim>\<open>None\<close>; the record holds empty lists there.
\<close>

record outcome =
  course :: string
  status :: status
  message :: string
  data :: "result_row list option"
  unmatched :: "result_row list"
  withdrawn :: "string list"

record summary =
  total_courses :: nat
  courses_with_mismatches :: nat
  total_mismatches :: nat
  total_students :: nat
  unique_students :: nat
  withdrawn_students :: nat

text \<open>
  The variables the loop of \<^verbatim>\<open>compare_grades\<close> updates, and the number of
  temporary files the run has created so far: the operating system chooses the name of
  each, which the function \<open>mktemp\<close> of the run stands for.
\<close>

record state =
  results :: "outcome list"
  all_unmatched :: "result_row list list"
  unique_student_ids :: "string set"
  summary_stats :: summary
  temp_files :: nat

definition error_result :: "string \<Rightarrow> string \<Rightarrow> outcome" where
  "error_result base_name msg =
     \<lparr>course = base_name, status = error, message = msg, data = None, unmatched = [],
      withdrawn = []\<rparr>"

definition append_result :: "state \<Rightarrow> outcome \<Rightarrow> state" where
  "append_result st r = st\<lparr>results := results st @ [r]\<rparr>"

definition letter_grade_missing :: string where
  "letter_grade_missing = [CHR 0x27] @ ''Letter Grade'' @ [CHR 0x27] @ '' column is missing.''"

text \<open>
  Selecting a label that two columns carry gives a frame instead of a column, and the
  cleaning of lines 416 to 420 raises on its \<^verbatim>\<open>.str\<close>; the handler of line 470
  reports it.
\<close>

definition no_str_accessor :: string where
  "no_str_accessor =
     [CHR 0x27] @ ''DataFrame'' @ [CHR 0x27] @ '' object has no attribute '' @
     [CHR 0x27] @ ''str'' @ [CHR 0x27]"

definition duplicated :: "string list \<Rightarrow> string list \<Rightarrow> bool" where
  "duplicated labels selected = list_ex (\<lambda>c. 1 < count_list labels c) selected"

definition success_message :: "nat \<Rightarrow> nat \<Rightarrow> nat \<Rightarrow> string" where
  "success_message n_result unmatched_count n_withdrawn =
     ''Processed '' @ str_nat n_result @ '' students, found '' @ str_nat unmatched_count @
     '' mismatches, '' @ str_nat n_withdrawn @ '' withdrawn''"

text \<open>Lines 427 to 468: the withdrawals, the verdicts and the update of the tallies.\<close>

definition tally_frame :: "string \<Rightarrow> merged_row list \<Rightarrow> state \<Rightarrow> state" where
  "tally_frame base_name merged st =
     (let withdrawn_ids = map ID_final (filter is_withdrawn merged);
          stats1 = (summary_stats st)
            \<lparr>withdrawn_students := withdrawn_students (summary_stats st) + length withdrawn_ids\<rparr>;
          valid_ids = filter isnumeric (map ID_final merged);
          unique1 = unique_student_ids st \<union> set valid_ids;
          result = filter (\<lambda>r. isnumeric (row_ID_final r)) (map (result_row_of base_name) merged);
          stats2 = stats1\<lparr>total_students := total_students stats1 + length result\<rparr>;
          unmatched_rows = filter (\<lambda>r. \<not> row_matched r) result;
          unmatched_count = length unmatched_rows;
          stats3 =
            (if unmatched_count > 0 then
               stats2\<lparr>courses_with_mismatches := courses_with_mismatches stats2 + 1,
                      total_mismatches := total_mismatches stats2 + unmatched_count\<rparr>
             else stats2);
          all_unmatched1 =
            (if unmatched_count > 0 then all_unmatched st @ [unmatched_rows]
             else all_unmatched st)
      in st\<lparr>results := results st @
               [\<lparr>course = base_name, status = success,
                 message = success_message (length result) unmatched_count (length withdrawn_ids),
                 data = Some result, unmatched = unmatched_rows, withdrawn = withdrawn_ids\<rparr>],
            all_unmatched := all_unmatched1,
            unique_student_ids := unique1,
            summary_stats := stats3\<rparr>)"

text \<open>Lines 389 to 425, once the identifier column \<open>sid\<close> of the roster is chosen.\<close>

definition compare_frames :: "string \<Rightarrow> string \<Rightarrow> table \<Rightarrow> table \<Rightarrow> state \<Rightarrow> state" where
  "compare_frames base_name sid df_roster df_downloaded st =
     (if ''Letter Grade'' \<notin> set (columns df_roster) then
        append_result st (error_result base_name letter_grade_missing)
      else if ''ID'' \<notin> set (columns df_downloaded) \<or>
              ''Approved final grade'' \<notin> set (columns df_downloaded) then
        append_result st
          (error_result base_name ''Required columns are missing in downloaded file.'')
      else if duplicated (columns df_roster) [sid, ''Letter Grade''] \<or>
              duplicated (columns df_downloaded) [''ID'', ''Approved final grade'', ''Withdrawn''] then
        append_result st
          (error_result base_name (''Error processing files: '' @ no_str_accessor))
      else tally_frame base_name (merged_frame sid df_roster df_downloaded) st)"

text \<open>Lines 371 to 387: the labels are stripped and the identifier column is chosen.\<close>

definition reconcile :: "string \<Rightarrow> table \<Rightarrow> table \<Rightarrow> state \<Rightarrow> state" where
  "reconcile base_name df_roster0 df_downloaded0 st =
     (let df_roster = strip_columns df_roster0;
          df_downloaded = strip_columns df_downloaded0
      in if ''SID'' \<in> set (columns df_roster) then
           compare_frames base_name ''SID'' df_roster df_downloaded st
         else if ''Student ID'' \<in> set (columns df_roster) then
           compare_frames base_name ''Student ID'' df_roster df_downloaded st
         else append_result st
                (error_result base_name ''Required student id column is missing.''))"

text \<open>
  One turn of the loop over \<^verbatim>\<open>roster_files\<close>. Both temporary files are
  created before anything is read; the path of the first is the argument of
  \<^verbatim>\<open>read_roster_file\<close>.
\<close>

definition loop_body ::
  "(nat \<Rightarrow> string) \<Rightarrow> (string \<rightharpoonup> downloaded_file) \<Rightarrow> state \<Rightarrow> roster_file \<Rightarrow> state" where
  "loop_body mktemp downloaded_dict st roster_file =
     (let base_name = base_name_of (name roster_file)
      in case downloaded_dict base_name of
           None \<Rightarrow>
             append_result st (error_result base_name ''No matching downloaded file found'')
         | Some downloaded_file \<Rightarrow>
             (let st1 = st\<lparr>summary_stats := (summary_stats st)
                             \<lparr>total_courses := total_courses (summary_stats st) + 1\<rparr>,
                           temp_files := temp_files st + 2\<rparr>;
                  tmp_roster_path = mktemp (temp_files st)
              in case read_roster_file tmp_roster_path (getvalue roster_file) of
                   Inl (ValueError msg) \<Rightarrow> append_result st1 (error_result base_name msg)
                 | Inl (OtherError msg) \<Rightarrow>
                     append_result st1
                       (error_result base_name (''Error processing files: '' @ msg))
                 | Inr df_roster \<Rightarrow>
                     (case getvalue downloaded_file of
                        Inl e \<Rightarrow>
                          append_result st1
                            (error_result base_name (''Error processing files: '' @ str_exn e))
                      | Inr df_downloaded \<Rightarrow>
                          reconcile base_name df_roster df_downloaded st1)))"

definition init_state :: state where
  "init_state =
     \<lparr>results = [], all_unmatched = [], unique_student_ids = {},
      summary_stats = \<lparr>total_courses = 0, courses_with_mismatches = 0, total_mismatches = 0,
                       total_students = 0, unique_students = 0, withdrawn_students = 0\<rparr>,
      temp_files = 0\<rparr>"

text \<open>A later downloaded file of the same base name replaces an earlier one.\<close>

definition downloaded_dict_of :: "downloaded_file list \<Rightarrow> (string \<rightharpoonup> downloaded_file)" where
  "downloaded_dict_of downloaded_files =
     map_of (rev (map (\<lambda>f. (base_name_of (name f), f)) downloaded_files))"

definition run_loop ::
  "(nat \<Rightarrow> string) \<Rightarrow> roster_file list \<Rightarrow> downloaded_file list \<Rightarrow> state" where
  "run_loop mktemp roster_files downloaded_files =
     foldl (loop_body mktemp (downloaded_dict_of downloaded_files)) init_state roster_files"

definition compare_grades ::
  "(nat \<Rightarrow> string) \<Rightarrow> roster_file list \<Rightarrow> downloaded_file list
     \<Rightarrow> outcome list \<times> summary \<times> result_row list list" where
  "compare_grades mktemp roster_files downloaded_files =
     (let st = run_loop mktemp roster_files downloaded_files
      in (results st,
          (summary_stats st)\<lparr>unique_students := card (unique_student_ids st)\<rparr>,
          all_unmatched st))"

section \<open>Notions used in the statements\<close>

text \<open>
  The state is a monoid under \<open>merge_state\<close>, and a turn of the loop adds to it what the
  course contributes: the state the turn reaches from the initial state, given the path of
  its first temporary file.
\<close>

definition add_summary :: "summary \<Rightarrow> summary \<Rightarrow> summary" where
  "add_summary a b =
     \<lparr>total_courses = total_courses a + total_courses b,
      courses_with_mismatches = courses_with_mismatches a + courses_with_mismatches b,
      total_mismatches = total_mismatches a + total_mismatches b,
      total_students = total_students a + total_students b,
      unique_students = unique_students a + unique_students b,
      withdrawn_students = withdrawn_students a + withdrawn_students b\<rparr>"

definition merge_state :: "state \<Rightarrow> state \<Rightarrow> state" where
  "merge_state a b =
     \<lparr>results = results a @ results b,
      all_unmatched = all_unmatched a @ all_unmatched b,
      unique_student_ids = unique_student_ids a \<union> unique_student_ids b,
      summary_stats = add_summary (summary_stats a) (summary_stats b),
      temp_files = temp_files a + temp_files b\<rparr>"

definition contribution :: "string \<Rightarrow> (string \<rightharpoonup> downloaded_file) \<Rightarrow> roster_file \<Rightarrow> state" where
  "contribution path downloaded_dict roster_file =
     loop_body (\<lambda>k. path) downloaded_dict init_state roster_file"

text \<open>The identifiers of the rows of an outcome, and of all outcomes of a run.\<close>

definition row_ids :: "outcome \<Rightarrow> string list" where
  "row_ids r = (case data r of None \<Rightarrow> [] | Some rs \<Rightarrow> map row_ID_final rs)"

definition admitted_ids :: "outcome list \<Rightarrow> string list" where
  "admitted_ids rs = concat (map row_ids rs)"

text \<open>The start of a turn that found its downloaded file: lines 339 to 351.\<close>

definition opened :: "state \<Rightarrow> state" where
  "opened st =
     st\<lparr>summary_stats := (summary_stats st)
           \<lparr>total_courses := total_courses (summary_stats st) + 1\<rparr>,
        temp_files := temp_files st + 2\<rparr>"

text \<open>The tallies a course can add to, apart from the count of courses.\<close>

definition tallies :: "state \<Rightarrow> nat \<times> nat \<times> nat \<times> string set \<times> nat" where
  "tallies st =
     (courses_with_mismatches (summary_stats st), total_mismatches (summary_stats st),
      total_students (summary_stats st), unique_student_ids st,
      withdrawn_students (summary_stats st))"

text \<open>
  Two outcomes that differ at most in the path that a header-not-found message names.
\<close>

definition same_verdict :: "outcome \<Rightarrow> outcome \<Rightarrow> bool" where
  "same_verdict a b =
     (course a = course b \<and> status a = status b \<and> data a = data b \<and>
      unmatched a = unmatched b \<and> withdrawn a = withdrawn b \<and>
      (message a = message b \<or>
       (status a = error \<and>
        (\<exists>p q. message a = header_not_found p \<and> message b = header_not_found q))))"

text \<open>
  What an entry of \<^verbatim>\<open>results\<close> satisfies: the rows of a success entry have
  numeric identifiers and carry its course, its unmatched rows are the rows not matched, and
  the numeric entries of its withdrawn list are the identifiers of its withdrawn rows, row
  by row; an error entry has no rows.
\<close>

definition outcome_ok :: "outcome \<Rightarrow> bool" where
  "outcome_ok r =
     (case data r of
        None \<Rightarrow> status r = error \<and> unmatched r = [] \<and> withdrawn r = []
      | Some rs \<Rightarrow>
          status r = success \<and>
          list_all (\<lambda>x. isnumeric (row_ID_final x) \<and> row_course x = course r) rs \<and>
          unmatched r = filter (\<lambda>x. \<not> row_matched x) rs \<and>
          filter isnumeric (withdrawn r) = map row_ID_final (filter row_is_withdrawn rs))"

text \<open>How the tallies of a state follow from its entries.\<close>

definition tally_ok :: "state \<Rightarrow> bool" where
  "tally_ok st =
     (list_all outcome_ok (results st) \<and>
      total_students (summary_stats st) = length (admitted_ids (results st)) \<and>
      unique_student_ids st = set (admitted_ids (results st)) \<and>
      total_mismatches (summary_stats st) =
        sum_list (map (\<lambda>r. length (unmatched r)) (filter (\<lambda>r. status r = success) (results st))) \<and>
      courses_with_mismatches (summary_stats st) =
        length (filter (\<lambda>r. unmatched r \<noteq> []) (results st)) \<and>
      withdrawn_students (summary_stats st) =
        sum_list (map (\<lambda>r. length (withdrawn r)) (results st)) \<and>
      all_unmatched st = filter (\<lambda>u. u \<noteq> []) (map unmatched (results st)))"

text \<open>Two states that differ at most in the paths their header-not-found messages name.\<close>

definition same_run :: "state \<Rightarrow> state \<Rightarrow> bool" where
  "same_run a b =
     (list_all2 same_verdict (results a) (results b) \<and>
      all_unmatched a = all_unmatched b \<and>
      unique_student_ids a = unique_student_ids b \<and>
      summary_stats a = summary_stats b \<and>
      temp_files a = temp_files b)"

section \<open>Example inputs\<close>

definition tmp_path :: "nat \<Rightarrow> string" where
  "tmp_path k = ''/tmp/tmp'' @ str_nat k"

definition other_tmp_path :: "nat \<Rightarrow> string" where
  "other_tmp_path k = ''/var/tmp/x'' @ str_nat k"

definition roster_of :: "string \<Rightarrow> grid \<Rightarrow> roster_file" where
  "roster_of n g = \<lparr>name = n, getvalue = Inr g\<rparr>"

definition downloaded_of :: "string \<Rightarrow> string list \<Rightarrow> cell list list \<Rightarrow> downloaded_file" where
  "downloaded_of n cs rs = \<lparr>name = n, getvalue = Inr \<lparr>columns = cs, rows = rs\<rparr>\<rparr>"

text \<open>A course with two blank rows above the header, an absence resolved to F, an absence
  resolved to D, a pass, and a withdrawn student the roster does not list.\<close>

definition math_grid :: grid where
  "math_grid =
     [[NaN, NaN], [NaN, NaN], [Str ''SID'', Str ''Letter Grade''],
      [Str ''100'', Str ''ABSENT''], [Str ''101'', Str ''ABSENT''], [Str ''102'', Str ''P'']]"

definition math_roster :: roster_file where
  "math_roster = roster_of ''MATH101.xlsx'' math_grid"

definition math_downloaded :: downloaded_file where
  "math_downloaded = downloaded_of ''MATH101.csv'' [''ID'', ''Approved final grade'', ''Withdrawn'']
     [[Str ''100'', Str ''F'', Str []], [Str ''101'', Str ''D'', Str []],
      [Str ''102'', Str ''PASS'', Str []], [Str ''103'', Str ''W'', Str []]]"

text \<open>A roster without header row, and its downloaded file.\<close>

definition bare_grid :: grid where
  "bare_grid = [[Str ''Physics'', NaN], [Str ''200'', Str ''A'']]"

definition bare_roster :: roster_file where
  "bare_roster = roster_of ''PHYS200.xlsx'' bare_grid"

definition bare_downloaded :: downloaded_file where
  "bare_downloaded = downloaded_of ''PHYS200.csv'' [''ID'', ''Approved final grade''] [[Str ''200'', Str ''A'']]"

text \<open>A course whose roster lists the identifier 100 twice.\<close>

definition twice_roster :: roster_file where
  "twice_roster = roster_of ''CSAI330.xlsx''
     [[Str ''SID'', Str ''Letter Grade''], [Str ''100'', Str ''A''], [Str ''100'', Str ''A'']]"

definition twice_downloaded :: downloaded_file where
  "twice_downloaded = downloaded_of ''CSAI330.csv'' [''ID'', ''Approved final grade'']
     [[Str ''100'', Str ''A'']]"

text \<open>A course whose downloaded file lists the withdrawn identifier 100 twice.\<close>

definition repeat_roster :: roster_file where
  "repeat_roster = roster_of ''BIO110.xlsx'' [[Str ''SID'', Str ''Letter Grade''], [Str ''100'', Str ''W'']]"

definition repeat_downloaded :: downloaded_file where
  "repeat_downloaded = downloaded_of ''BIO110.csv'' [''ID'', ''Approved final grade'']
     [[Str ''100'', Str ''W''], [Str ''100'', Str ''W'']]"

text \<open>A course with a withdrawn row whose identifier is not numeric.\<close>

definition footer_roster :: roster_file where
  "footer_roster = roster_of ''CHEM120.xlsx'' [[Str ''SID'', Str ''Letter Grade''], [Str ''abc123'', Str ''A'']]"

definition footer_downloaded :: downloaded_file where
  "footer_downloaded = downloaded_of ''CHEM120.csv'' [''ID'', ''Approved final grade'']
     [[Str ''abc123'', Str ''W'']]"

text \<open>Two runs on the same two courses, whose temporary files are named differently.\<close>

definition pair_run :: "outcome list \<times> summary \<times> result_row list list" where
  "pair_run = compare_grades tmp_path [bare_roster, math_roster] [bare_downloaded, math_downloaded]"

definition pair_run_again :: "outcome list \<times> summary \<times> result_row list list" where
  "pair_run_again =
     compare_grades other_tmp_path [bare_roster, math_roster] [bare_downloaded, math_downloaded]"

text \<open>The run on the second of the two courses alone, with both downloaded files.\<close>

definition alone_run :: "outcome list \<times> summary \<times> result_row list list" where
  "alone_run = compare_grades tmp_path [math_roster] [bare_downloaded, math_downloaded]"

definition math_run :: "outcome list \<times> summary \<times> result_row list list" where
  "math_run = compare_grades tmp_path [math_roster] [math_downloaded]"

definition twice_run :: "outcome list \<times> summary \<times> result_row list list" where
  "twice_run = compare_grades tmp_path [twice_roster] [twice_downloaded]"

definition repeat_run :: "outcome list \<times> summary \<times> result_row list list" where
  "repeat_run = compare_grades tmp_path [repeat_roster] [repeat_downloaded]"

definition footer_run :: "outcome list \<times> summary \<times> result_row list list" where
  "footer_run = compare_grades tmp_path [footer_roster] [footer_downloaded]"

text \<open>Some identifier is on a row of two different entries of the list of outcomes.\<close>

definition shared_between_courses :: "outcome list \<Rightarrow> bool" where
  "shared_between_courses rs =
     list_ex (\<lambda>i. list_ex (\<lambda>j. i \<noteq> j \<and> list_ex (\<lambda>x. x \<in> set (row_ids (rs ! j))) (row_ids (rs ! i)))
                     [0..<length rs])
       [0..<length rs]"

text \<open>A frame whose four rows show the four combinations of withdrawn and mismatch.\<close>

definition mixed_frame :: "merged_row list" where
  "mixed_frame =
     merged_frame ''SID''
       \<lparr>columns = [''SID'', ''Letter Grade''],
        rows = [[Str ''1'', Str ''A''], [Str ''2'', Str ''A''], [Str ''3'', Str ''A''],
                [Str ''4'', Str ''A'']]\<rparr>
       \<lparr>columns = [''ID'', ''Approved final grade'', ''Withdrawn''],
        rows = [[Str ''1'', Str ''A'', NaN], [Str ''2'', Str ''B'', NaN],
                [Str ''3'', Str ''w'', NaN], [Str ''4'', Str ''A'', Str '' withdrawn'']]\<rparr>"

text \<open>The frame of the three scenarios on absences and passes, and of an orphan row.\<close>

definition scenario_frame :: "merged_row list" where
  "scenario_frame =
     merged_frame ''SID''
       \<lparr>columns = [''SID'', ''Letter Grade''],
        rows = [[Str ''100'', Str ''ABSENT''], [Str ''101'', Str ''ABSENT''],
                [Str ''102'', Str ''P'']]\<rparr>
       \<lparr>columns = [''ID'', ''Approved final grade''],
        rows = [[Str ''100'', Str ''F''], [Str ''101'', Str ''D''], [Str ''102'', Str ''PASS''],
                [Str ''103'', Str ''W'']]\<rparr>"

section \<open>Properties of the string functions\<close>

lemma upper_char_lower:
  "97 \<le> (of_char c :: nat) \<Longrightarrow> (of_char c :: nat) \<le> 122 \<Longrightarrow>
     upper_char c = char_of ((of_char c :: nat) - 32)"
  by (simp add: upper_char_def)

lemma upper_char_other:
  "\<not> (97 \<le> (of_char c :: nat) \<and> (of_char c :: nat) \<le> 122) \<Longrightarrow> upper_char c = c"
  by (auto simp add: upper_char_def)

lemma of_char_upper_char_lower:
  assumes "97 \<le> (of_char c :: nat)" and "(of_char c :: nat) \<le> 122"
  shows "(of_char (upper_char c) :: nat) = of_char c - 32"
proof -
  from assms have "(of_char c :: nat) - 32 < 256"
    by arith
  then show ?thesis
    by (simp add: upper_char_lower [OF assms])
qed

lemma upper_char_idem: "upper_char (upper_char c) = upper_char c"
proof (cases "97 \<le> (of_char c :: nat) \<and> (of_char c :: nat) \<le> 122")
  case True
  then have "(of_char (upper_char c) :: nat) = of_char c - 32"
    by (simp add: of_char_upper_char_lower)
  with True have "\<not> (97 \<le> (of_char (upper_char c) :: nat) \<and> (of_char (upper_char c) :: nat) \<le> 122)"
    by arith
  then show ?thesis
    by (rule upper_char_other)
next
  case False
  then show ?thesis
    by (simp add: upper_char_other)
qed

lemma isspace_upper_char: "isspace (upper_char c) = isspace c"
proof (cases "97 \<le> (of_char c :: nat) \<and> (of_char c :: nat) \<le> 122")
  case True
  then have "(of_char (upper_char c) :: nat) = of_char c - 32"
    by (simp add: of_char_upper_char_lower)
  with True have "\<not> isspace (upper_char c)" and "\<not> isspace c"
    unfolding isspace_def Let_def by arith+
  then show ?thesis
    by simp
next
  case False
  then show ?thesis
    by (simp add: upper_char_other)
qed

lemma upper_idem: "upper (upper s) = upper s"
  by (simp add: upper_def upper_char_idem)

lemma dropWhile_isspace_upper:
  "dropWhile isspace (upper s) = upper (dropWhile isspace s)"
  by (induction s) (simp_all add: upper_def isspace_upper_char)

lemma upper_rev: "upper (rev s) = rev (upper s)"
  by (simp add: upper_def rev_map)

lemma strip_upper: "strip (upper s) = upper (strip s)"
  by (simp add: strip_def dropWhile_isspace_upper upper_rev [symmetric])

lemma dropWhile_keeps_last:
  "xs \<noteq> [] \<Longrightarrow> \<not> P (hd xs) \<Longrightarrow>
     rev (dropWhile P (rev xs)) \<noteq> [] \<and> hd (rev (dropWhile P (rev xs))) = hd xs"
proof -
  assume ne: "xs \<noteq> []" and np: "\<not> P (hd xs)"
  then obtain x ys where xs: "xs = x # ys"
    by (cases xs) auto
  with np have "dropWhile P (rev ys @ [x]) = dropWhile P (rev ys) @ [x]"
    by (induction "rev ys" arbitrary: ys) (auto simp: dropWhile_append)
  with xs show ?thesis
    by simp
qed

lemma strip_idem: "strip (strip s) = strip s"
proof -
  define t where "t = dropWhile isspace s"
  define u where "u = rev (dropWhile isspace (rev t))"
  have head: "dropWhile isspace u = u"
  proof (cases "t = []")
    case True
    then show ?thesis by (simp add: u_def)
  next
    case False
    then have "\<not> isspace (hd t)"
      unfolding t_def by (simp add: hd_dropWhile)
    with False have "u \<noteq> [] \<and> hd u = hd t"
      unfolding u_def by (rule dropWhile_keeps_last)
    with \<open>\<not> isspace (hd t)\<close> show ?thesis
      by (cases u) auto
  qed
  have "rev (dropWhile isspace (rev u)) = u"
    by (simp add: u_def)
  with head show ?thesis
    by (simp add: strip_def t_def u_def)
qed

lemma upper_strip_fix: "upper (strip (upper (strip s))) = upper (strip s)"
  by (simp add: strip_upper [symmetric] strip_idem upper_idem)

text \<open>
  Claim C9. \<^verbatim>\<open>normalize_grade\<close> is idempotent: normalizing the text that one
  normalization returned gives that text again, for every grade cell (a text or NaN).
\<close>

theorem normalize_grade_idempotent:
  "normalize_grade (Str (normalize_grade g)) = normalize_grade g"
proof -
  define x where "x = upper (strip (astype_str g))"
  have fixed: "upper (strip x) = x"
    by (simp add: x_def upper_strip_fix)
  have pass: "upper (strip ''PASS'') = ''PASS''"
    by code_simp
  have absent: "upper (strip ''ABSENT'') = ''ABSENT''"
    by code_simp
  show ?thesis
  proof (cases "x = ''P'' \<or> x = ''PASS''")
    case True
    then show ?thesis
      by (auto simp add: normalize_grade_def x_def [symmetric] pass)
  next
    case notp: False
    show ?thesis
    proof (cases "x = ''ABSENT'' \<or> x = ''ABS''")
      case True
      with notp show ?thesis
        by (auto simp add: normalize_grade_def x_def [symmetric] absent)
    next
      case False
      with notp show ?thesis
        by (simp add: normalize_grade_def x_def [symmetric] fixed)
    qed
  qed
qed

section \<open>The loop as a sum of contributions\<close>

lemma merge_state_init: "merge_state st init_state = st"
  by (simp add: merge_state_def add_summary_def init_state_def)

lemma merge_state_assoc: "merge_state (merge_state a b) c = merge_state a (merge_state b c)"
  by (simp add: merge_state_def add_summary_def Un_assoc)

lemma tally_frame_merge:
  "tally_frame b merged st = merge_state st (tally_frame b merged init_state)"
  by (simp add: tally_frame_def merge_state_def add_summary_def init_state_def Let_def)

lemma append_result_merge:
  "append_result st r = merge_state st (append_result init_state r)"
  by (simp add: append_result_def merge_state_def add_summary_def init_state_def)

lemma compare_frames_merge:
  "compare_frames b sid dr dd st = merge_state st (compare_frames b sid dr dd init_state)"
  unfolding compare_frames_def
  using tally_frame_merge [of b _ st] append_result_merge [of st]
  by (simp del: set_simps)

lemma reconcile_merge:
  "reconcile b dr dd st = merge_state st (reconcile b dr dd init_state)"
  unfolding reconcile_def Let_def
  using compare_frames_merge [of b _ _ _ st] append_result_merge [of st]
  by simp

lemma opened_merge: "opened st = merge_state st (opened init_state)"
  by (simp add: opened_def merge_state_def add_summary_def init_state_def)

lemma loop_body_merge:
  "loop_body mk dd st rf = merge_state st (contribution (mk (temp_files st)) dd rf)"
proof -
  have a: "\<And>r. append_result (opened st) r = merge_state st (append_result (opened init_state) r)"
    by (simp add: opened_def merge_state_def add_summary_def init_state_def append_result_def)
  have b: "\<And>b dr dd. reconcile b dr dd (opened st) = merge_state st (reconcile b dr dd (opened init_state))"
    using reconcile_merge [of _ _ _ "opened st"] reconcile_merge [of _ _ _ "opened init_state"]
        opened_merge [of st]
    by (simp add: merge_state_assoc)
  show ?thesis
    unfolding loop_body_def contribution_def Let_def opened_def [symmetric]
    using a b append_result_merge [of st]
    by (simp add: init_state_def split: option.splits sum.splits exn.splits)
qed

text \<open>Every contribution is an error entry or the tally of a merged frame.\<close>

lemma compare_frames_cases:
  "(\<exists>msg. compare_frames b sid dr dd st = append_result st (error_result b msg)) \<or>
   (\<exists>merged. compare_frames b sid dr dd st = tally_frame b merged st)"
  unfolding compare_frames_def by (auto simp del: set_simps)

lemma reconcile_cases:
  "(\<exists>msg. reconcile b dr dd st = append_result st (error_result b msg)) \<or>
   (\<exists>merged. reconcile b dr dd st = tally_frame b merged st)"
  unfolding reconcile_def Let_def
  using compare_frames_cases [of b _ "strip_columns dr" "strip_columns dd" st]
  by auto

lemma contribution_cases:
  "(\<exists>msg. contribution p dd rf = append_result init_state (error_result (base_name_of (name rf)) msg)) \<or>
   (\<exists>msg. contribution p dd rf = append_result (opened init_state) (error_result (base_name_of (name rf)) msg)) \<or>
   (\<exists>merged. contribution p dd rf = tally_frame (base_name_of (name rf)) merged (opened init_state))"
  unfolding contribution_def loop_body_def Let_def opened_def [symmetric]
  using reconcile_cases [of "base_name_of (name rf)" _ _ "opened init_state"]
  by (auto split: option.splits sum.splits exn.splits)

lemma run_loop_induct:
  assumes init: "Q init_state"
    and contrib: "\<And>p rf. Q (contribution p dd rf)"
    and merge: "\<And>a b. Q a \<Longrightarrow> Q b \<Longrightarrow> Q (merge_state a b)"
  shows "Q (foldl (loop_body mk dd) init_state rfs)"
proof (induction rfs rule: rev_induct)
  case Nil
  show ?case by (simp add: init)
next
  case (snoc rf rfs)
  then show ?case
    by (simp add: loop_body_merge merge contrib)
qed

lemma foldl_loop_body_merge:
  "foldl (loop_body mk dd) st rfs =
     merge_state st (foldl (loop_body (\<lambda>k. mk (temp_files st + k)) dd) init_state rfs)"
proof (induction rfs rule: rev_induct)
  case Nil
  show ?case by (simp add: merge_state_init)
next
  case (snoc rf rfs)
  have "temp_files (merge_state st x) = temp_files st + temp_files x" for x
    by (simp add: merge_state_def)
  with snoc show ?case
    by (simp add: loop_body_merge [of mk] loop_body_merge [of "\<lambda>k. mk (temp_files st + k)"] merge_state_assoc)
qed

section \<open>The tallies follow from the entries\<close>

lemma admitted_ids_append: "admitted_ids (xs @ ys) = admitted_ids xs @ admitted_ids ys"
  by (simp add: admitted_ids_def)

lemma tally_ok_init: "tally_ok init_state"
  by (simp add: tally_ok_def init_state_def admitted_ids_def)

lemma tally_ok_merge:
  assumes "tally_ok a" and "tally_ok b"
  shows "tally_ok (merge_state a b)"
  using assms
  by (simp add: tally_ok_def merge_state_def add_summary_def admitted_ids_append)

lemma outcome_ok_error: "outcome_ok (error_result b msg)"
  by (simp add: outcome_ok_def error_result_def)

lemma tally_ok_error_init: "tally_ok (append_result init_state (error_result b msg))"
  by (simp add: tally_ok_def append_result_def init_state_def admitted_ids_def row_ids_def
      error_result_def outcome_ok_def)

lemma tally_ok_error_opened: "tally_ok (append_result (opened init_state) (error_result b msg))"
  by (simp add: tally_ok_def append_result_def init_state_def admitted_ids_def row_ids_def
      error_result_def outcome_ok_def opened_def)

lemma withdrawn_numeric:
  "filter isnumeric (map ID_final (filter is_withdrawn merged)) =
   map row_ID_final (filter row_is_withdrawn
     (filter (\<lambda>r. isnumeric (row_ID_final r)) (map (result_row_of b) merged)))"
  by (induction merged) (simp_all add: result_row_of_def)

lemma ids_of_result:
  "map row_ID_final (filter (\<lambda>r. isnumeric (row_ID_final r)) (map (result_row_of b) merged)) =
   filter isnumeric (map ID_final merged)"
  by (induction merged) (simp_all add: result_row_of_def)

lemma result_rows_ok:
  "list_all (\<lambda>x. isnumeric (row_ID_final x) \<and> row_course x = b)
     (filter (\<lambda>r. isnumeric (row_ID_final r)) (map (result_row_of b) merged))"
  by (induction merged) (simp_all add: result_row_of_def)

lemma length_result:
  "length (filter (\<lambda>r. isnumeric (row_ID_final r)) (map (result_row_of b) merged)) =
   length (filter (isnumeric \<circ> ID_final) merged)"
  by (induction merged) (simp_all add: result_row_of_def)

lemma tally_ok_frame: "tally_ok (tally_frame b merged (opened init_state))"
proof -
  define rs where "rs = filter (\<lambda>r. isnumeric (row_ID_final r)) (map (result_row_of b) merged)"
  show ?thesis
    using withdrawn_numeric [of merged b] ids_of_result [of b merged] result_rows_ok [of b merged]
      length_result [of b merged]
    unfolding rs_def [symmetric]
    by (simp add: tally_ok_def tally_frame_def Let_def opened_def init_state_def admitted_ids_def
        row_ids_def outcome_ok_def rs_def [symmetric])
qed

lemma tally_ok_contribution: "tally_ok (contribution p dd rf)"
  using contribution_cases [of p dd rf]
  by (auto simp add: tally_ok_error_init tally_ok_error_opened tally_ok_frame)

lemma tally_ok_run_loop: "tally_ok (run_loop mk rfs dfs)"
  unfolding run_loop_def
  by (rule run_loop_induct) (simp_all add: tally_ok_init tally_ok_contribution tally_ok_merge)

section \<open>Counts of a run\<close>

lemma compare_grades_run:
  assumes "compare_grades mk rfs dfs = (rs, sm, au)"
  shows "rs = results (run_loop mk rfs dfs)"
    and "sm = (summary_stats (run_loop mk rfs dfs))
                \<lparr>unique_students := card (unique_student_ids (run_loop mk rfs dfs))\<rparr>"
    and "au = all_unmatched (run_loop mk rfs dfs)"
  using assms by (simp_all add: compare_grades_def Let_def)

lemma outcome_ok_run:
  assumes "compare_grades mk rfs dfs = (rs, sm, au)" and "r \<in> set rs"
  shows "outcome_ok r"
  using assms(2) tally_ok_run_loop [of mk rfs dfs] compare_grades_run(1) [OF assms(1)]
  by (simp add: tally_ok_def list_all_iff)

lemma outcome_ok_success:
  assumes "outcome_ok r" and "status r = success"
  obtains rows where "data r = Some rows"
    and "unmatched r = filter (\<lambda>x. \<not> row_matched x) rows"
    and "filter isnumeric (withdrawn r) = map row_ID_final (filter row_is_withdrawn rows)"
  using assms by (cases "data r") (simp_all add: outcome_ok_def)

text \<open>
  Claim C8. In every run, the rows of each successful outcome are its unmatched rows plus
  its matched rows, by count, and the total of mismatches of the summary is the sum of the
  numbers of unmatched rows of the successful outcomes.
\<close>

theorem rows_split_and_mismatch_total:
  assumes "compare_grades mk rfs dfs = (rs, sm, au)"
  shows "(\<forall>r\<in>set rs. status r = success \<longrightarrow>
            (\<exists>rows. data r = Some rows \<and>
               length rows = length (unmatched r) + length (filter row_matched rows))) \<and>
         total_mismatches sm =
           sum_list (map (\<lambda>r. length (unmatched r)) (filter (\<lambda>r. status r = success) rs))"
proof
  show "\<forall>r\<in>set rs. status r = success \<longrightarrow>
          (\<exists>rows. data r = Some rows \<and>
             length rows = length (unmatched r) + length (filter row_matched rows))"
  proof (intro ballI impI)
    fix r
    assume "r \<in> set rs" and ok: "status r = success"
    then have "outcome_ok r"
      using assms by (simp add: outcome_ok_run)
    then obtain rows where d: "data r = Some rows"
      and u: "unmatched r = filter (\<lambda>x. \<not> row_matched x) rows"
      using ok by (rule outcome_ok_success)
    have "length rows = length (filter (\<lambda>x. \<not> row_matched x) rows) + length (filter row_matched rows)"
      using sum_length_filter_compl [of row_matched rows] by simp
    with d u show "\<exists>rows. data r = Some rows \<and>
        length rows = length (unmatched r) + length (filter row_matched rows)"
      by simp
  qed
next
  show "total_mismatches sm =
          sum_list (map (\<lambda>r. length (unmatched r)) (filter (\<lambda>r. status r = success) rs))"
    using tally_ok_run_loop [of mk rfs dfs] compare_grades_run(1,2) [OF assms]
    by (simp add: tally_ok_def)
qed

lemma math_run_value:
  "math_run =
     ([\<lparr>course = ''MATH101'', status = success,
        message = ''Processed 4 students, found 1 mismatches, 1 withdrawn'',
        data = Some
          [\<lparr>row_course = ''MATH101'', row_ID_final = ''100'', row_Letter_Grade = Str ''ABSENT'',
            row_Approved_final_grade = Str ''F'', row_matched = True, row_is_withdrawn = False\<rparr>,
           \<lparr>row_course = ''MATH101'', row_ID_final = ''101'', row_Letter_Grade = Str ''ABSENT'',
            row_Approved_final_grade = Str ''D'', row_matched = False, row_is_withdrawn = False\<rparr>,
           \<lparr>row_course = ''MATH101'', row_ID_final = ''102'', row_Letter_Grade = Str ''P'',
            row_Approved_final_grade = Str ''PASS'', row_matched = True, row_is_withdrawn = False\<rparr>,
           \<lparr>row_course = ''MATH101'', row_ID_final = ''103'', row_Letter_Grade = NaN,
            row_Approved_final_grade = Str ''W'', row_matched = True, row_is_withdrawn = True\<rparr>],
        unmatched =
          [\<lparr>row_course = ''MATH101'', row_ID_final = ''101'', row_Letter_Grade = Str ''ABSENT'',
            row_Approved_final_grade = Str ''D'', row_matched = False, row_is_withdrawn = False\<rparr>],
        withdrawn = [''103'']\<rparr>],
      \<lparr>total_courses = 1, courses_with_mismatches = 1, total_mismatches = 1,
        total_students = 4, unique_students = 4, withdrawn_students = 1\<rparr>,
      [[\<lparr>row_course = ''MATH101'', row_ID_final = ''101'', row_Letter_Grade = Str ''ABSENT'',
         row_Approved_final_grade = Str ''D'', row_matched = False, row_is_withdrawn = False\<rparr>]])"
  by code_simp

theorem rows_split_and_mismatch_total_witness:
  "status (hd (fst math_run)) = success \<and>
   (\<exists>rows. data (hd (fst math_run)) = Some rows \<and>
      length rows = length (unmatched (hd (fst math_run))) + length (filter row_matched rows)) \<and>
   total_mismatches (fst (snd math_run)) =
     sum_list (map (\<lambda>r. length (unmatched r)) (filter (\<lambda>r. status r = success) (fst math_run))) \<and>
   total_mismatches (fst (snd math_run)) = 1"
proof -
  have run: "compare_grades tmp_path [math_roster] [math_downloaded] =
      (fst math_run, fst (snd math_run), snd (snd math_run))"
    by (simp add: math_run_def)
  have mem: "hd (fst math_run) \<in> set (fst math_run)"
    and ok: "status (hd (fst math_run)) = success"
    and one: "total_mismatches (fst (snd math_run)) = 1"
    by (simp_all add: math_run_value)
  from rows_split_and_mismatch_total [OF run] mem ok one show ?thesis
    by blast
qed

section \<open>Students counted once and students counted per row\<close>

lemma concat_shared_lt:
  assumes "i < j" and "j < length ys" and "x \<in> set (ys ! i)" and "x \<in> set (ys ! j)"
  shows "\<not> distinct (concat ys)"
proof -
  have split: "ys = take j ys @ ys ! j # drop (Suc j) ys"
    using assms(2) by (rule id_take_nth_drop)
  have "ys ! i \<in> set (take j ys)"
    using assms(1,2) by (auto simp add: in_set_conv_nth intro!: exI [of _ i])
  with assms(3) have a: "x \<in> set (concat (take j ys))"
    by auto
  have "concat ys = concat (take j ys) @ ys ! j @ concat (drop (Suc j) ys)"
    by (subst split) simp
  with a assms(4) show ?thesis
    by auto
qed

lemma shared_not_distinct:
  assumes "shared_between_courses rs"
  shows "\<not> distinct (admitted_ids rs)"
proof -
  from assms obtain i j x where i: "i < length rs" and j: "j < length rs" and ne: "i \<noteq> j"
    and xi: "x \<in> set (row_ids (rs ! i))" and xj: "x \<in> set (row_ids (rs ! j))"
    by (auto simp add: shared_between_courses_def list_ex_iff)
  define ys where "ys = map row_ids rs"
  have yi: "x \<in> set (ys ! i)" and yj: "x \<in> set (ys ! j)"
    using xi xj i j by (simp_all add: ys_def)
  have "\<not> distinct (concat ys)"
  proof (cases "i < j")
    case True
    then show ?thesis
      using j yi yj by (intro concat_shared_lt [of i j]) (simp_all add: ys_def)
  next
    case False
    with ne have "j < i" by simp
    then show ?thesis
      using i yi yj by (intro concat_shared_lt [of j i]) (simp_all add: ys_def)
  qed
  then show ?thesis
    by (simp add: admitted_ids_def ys_def)
qed

text \<open>
  Claim C6, as amended. In every run the number of unique students is at most the total of
  students, and the two are equal exactly when no identifier is on two rows of the run,
  be it in two courses or twice in one course; an identifier on rows of two outcomes
  makes the number of unique students smaller than the total.
\<close>

theorem unique_students_le_total:
  assumes "compare_grades mk rfs dfs = (rs, sm, au)"
  shows "unique_students sm \<le> total_students sm \<and>
         (unique_students sm = total_students sm \<longleftrightarrow> distinct (admitted_ids rs)) \<and>
         (shared_between_courses rs \<longrightarrow> unique_students sm < total_students sm)"
proof -
  have u: "unique_students sm = card (set (admitted_ids rs))"
    and t: "total_students sm = length (admitted_ids rs)"
    using tally_ok_run_loop [of mk rfs dfs] compare_grades_run(1,2) [OF assms]
    by (simp_all add: tally_ok_def)
  have le: "unique_students sm \<le> total_students sm"
    by (simp add: u t card_length)
  have eq: "unique_students sm = total_students sm \<longleftrightarrow> distinct (admitted_ids rs)"
    unfolding u t by (auto simp add: distinct_card card_distinct)
  have "unique_students sm < total_students sm" if "shared_between_courses rs"
    using shared_not_distinct [OF that] le eq by simp
  with le eq show ?thesis
    by blast
qed

lemma twice_run_value:
  "twice_run =
     ([\<lparr>course = ''CSAI330'', status = success,
        message = ''Processed 2 students, found 0 mismatches, 0 withdrawn'',
        data = Some
          [\<lparr>row_course = ''CSAI330'', row_ID_final = ''100'', row_Letter_Grade = Str ''A'',
            row_Approved_final_grade = Str ''A'', row_matched = True, row_is_withdrawn = False\<rparr>,
           \<lparr>row_course = ''CSAI330'', row_ID_final = ''100'', row_Letter_Grade = Str ''A'',
            row_Approved_final_grade = Str ''A'', row_matched = True, row_is_withdrawn = False\<rparr>],
        unmatched = [], withdrawn = []\<rparr>],
      \<lparr>total_courses = 1, courses_with_mismatches = 0, total_mismatches = 0,
        total_students = 2, unique_students = 1, withdrawn_students = 0\<rparr>,
      [])"
  by code_simp

theorem unique_students_le_total_witness:
  "unique_students (fst (snd math_run)) \<le> total_students (fst (snd math_run)) \<and>
   (unique_students (fst (snd math_run)) = total_students (fst (snd math_run))) =
     distinct (admitted_ids (fst math_run)) \<and>
   distinct (admitted_ids (fst math_run)) \<and>
   unique_students (fst (snd math_run)) = 4"
proof -
  have run: "compare_grades tmp_path [math_roster] [math_downloaded] =
      (fst math_run, fst (snd math_run), snd (snd math_run))"
    by (simp add: math_run_def)
  have four: "unique_students (fst (snd math_run)) = 4" "total_students (fst (snd math_run)) = 4"
    by (simp_all add: math_run_value)
  from unique_students_le_total [OF run] four show ?thesis
    by simp
qed

theorem unique_students_counterexample:
  "\<not> ((unique_students (fst (snd twice_run)) = total_students (fst (snd twice_run))) \<longleftrightarrow>
       \<not> shared_between_courses (fst twice_run))"
  by (simp add: twice_run_value shared_between_courses_def)

section \<open>The withdrawn list\<close>

lemma count_list_filter:
  "count_list (filter P xs) i = (if P i then count_list xs i else 0)"
  by (induction xs) auto

lemma count_list_map_filter:
  "count_list (map f (filter Q xs)) i = length (filter (\<lambda>x. Q x \<and> f x = i) xs)"
  by (induction xs) auto

text \<open>
  Claim C7, as amended. The withdrawn identifiers of a successful outcome are a list, not a
  set: its numeric entries are the identifiers of the withdrawn rows of the outcome, one
  entry per row and in the order of the rows, so that a numeric identifier is listed as many
  times as the outcome has withdrawn rows with it; the summary adds the lengths of these
  lists.
\<close>

theorem withdrawn_ids_per_row:
  assumes "compare_grades mk rfs dfs = (rs, sm, au)" and "r \<in> set rs" and "data r = Some rws"
  shows "filter isnumeric (withdrawn r) = map row_ID_final (filter row_is_withdrawn rws) \<and>
         (\<forall>i. isnumeric i \<longrightarrow>
            count_list (withdrawn r) i =
              length (filter (\<lambda>x. row_is_withdrawn x \<and> row_ID_final x = i) rws)) \<and>
         withdrawn_students sm = sum_list (map (\<lambda>r. length (withdrawn r)) rs)"
proof -
  have "outcome_ok r"
    using assms(1,2) by (rule outcome_ok_run)
  with assms(3) have w: "filter isnumeric (withdrawn r) = map row_ID_final (filter row_is_withdrawn rws)"
    by (simp add: outcome_ok_def)
  have c: "count_list (withdrawn r) i =
      length (filter (\<lambda>x. row_is_withdrawn x \<and> row_ID_final x = i) rws)" if "isnumeric i" for i
  proof -
    from that have "count_list (withdrawn r) i = count_list (filter isnumeric (withdrawn r)) i"
      by (simp add: count_list_filter)
    then show ?thesis
      by (simp add: w count_list_map_filter)
  qed
  have s: "withdrawn_students sm = sum_list (map (\<lambda>r. length (withdrawn r)) rs)"
    using tally_ok_run_loop [of mk rfs dfs] compare_grades_run(1,2) [OF assms(1)]
    by (simp add: tally_ok_def)
  from w c s show ?thesis
    by blast
qed

lemma repeat_run_value:
  "repeat_run =
     ([\<lparr>course = ''BIO110'', status = success,
        message = ''Processed 2 students, found 0 mismatches, 2 withdrawn'',
        data = Some
          [\<lparr>row_course = ''BIO110'', row_ID_final = ''100'', row_Letter_Grade = Str ''W'',
            row_Approved_final_grade = Str ''W'', row_matched = True, row_is_withdrawn = True\<rparr>,
           \<lparr>row_course = ''BIO110'', row_ID_final = ''100'', row_Letter_Grade = Str ''W'',
            row_Approved_final_grade = Str ''W'', row_matched = True, row_is_withdrawn = True\<rparr>],
        unmatched = [], withdrawn = [''100'', ''100'']\<rparr>],
      \<lparr>total_courses = 1, courses_with_mismatches = 0, total_mismatches = 0,
        total_students = 2, unique_students = 1, withdrawn_students = 2\<rparr>,
      [])"
  by code_simp

lemma isnumeric_100: "isnumeric ''100''"
  by code_simp

theorem withdrawn_ids_per_row_witness:
  "hd (fst repeat_run) \<in> set (fst repeat_run) \<and>
   data (hd (fst repeat_run)) = Some (the (data (hd (fst repeat_run)))) \<and>
   filter isnumeric (withdrawn (hd (fst repeat_run))) =
     map row_ID_final (filter row_is_withdrawn (the (data (hd (fst repeat_run))))) \<and>
   isnumeric ''100'' \<and>
   count_list (withdrawn (hd (fst repeat_run))) ''100'' =
     length (filter (\<lambda>x. row_is_withdrawn x \<and> row_ID_final x = ''100'')
       (the (data (hd (fst repeat_run))))) \<and>
   count_list (withdrawn (hd (fst repeat_run))) ''100'' = 2 \<and>
   withdrawn_students (fst (snd repeat_run)) = 2"
proof -
  have run: "compare_grades tmp_path [repeat_roster] [repeat_downloaded] =
      (fst repeat_run, fst (snd repeat_run), snd (snd repeat_run))"
    by (simp add: repeat_run_def)
  have mem: "hd (fst repeat_run) \<in> set (fst repeat_run)"
    and dat: "data (hd (fst repeat_run)) = Some (the (data (hd (fst repeat_run))))"
    and two: "count_list (withdrawn (hd (fst repeat_run))) ''100'' = 2"
      "withdrawn_students (fst (snd repeat_run)) = 2"
    by (simp_all add: repeat_run_value)
  from withdrawn_ids_per_row [OF run mem dat] mem dat two isnumeric_100 show ?thesis
    by simp
qed

theorem withdrawn_ids_counterexample:
  "status (hd (fst repeat_run)) = success \<and> \<not> distinct (withdrawn (hd (fst repeat_run)))"
  by (simp add: repeat_run_value)

section \<open>A withdrawn row without numeric identifier\<close>

text \<open>
  Claim C2, at the input on which the code departs from it. The roster and the downloaded
  file of the course list the identifier \<^verbatim>\<open>abc123\<close>, which is not numeric, with the
  grade W. The row is in no list of rows and is not counted as a student, yet it is in the
  withdrawn list and counted as a withdrawn student.
\<close>

theorem nonnumeric_withdrawn_counted:
  "isnumeric ''abc123'' = False \<and>
   map data (fst footer_run) = [Some []] \<and>
   map withdrawn (fst footer_run) = [[''abc123'']] \<and>
   fst (snd footer_run) =
     \<lparr>total_courses = 1, courses_with_mismatches = 0, total_mismatches = 0,
      total_students = 0, unique_students = 0, withdrawn_students = 1\<rparr>"
  unfolding footer_run_def by code_simp

section \<open>The rows of the merged frame\<close>

lemma rows_for_cases:
  assumes "m \<in> set (rows_for right l)"
  shows "m = left_row l \<or> (\<exists>r\<in>set right. m = both_row l r)"
proof (cases "filter (\<lambda>r. fst r = fst l) right")
  case Nil
  with assms show ?thesis by (simp add: rows_for_def)
next
  case (Cons p ps)
  with assms have "m \<in> both_row l ` set (filter (\<lambda>r. fst r = fst l) right)"
    by (simp add: rows_for_def)
  then show ?thesis by auto
qed

lemma merge_row_cases:
  assumes "m \<in> set (pd_merge_outer left right)"
  shows "(\<exists>l\<in>set left. m = left_row l) \<or>
         (\<exists>l\<in>set left. \<exists>r\<in>set right. m = both_row l r) \<or>
         (\<exists>r\<in>set right. m = right_row r)"
proof -
  from assms have "m \<in> set (concat (map (rows_for right) left)) \<or>
      m \<in> right_row ` set (filter (\<lambda>r. fst r \<notin> set (map fst left)) right)"
    by (simp add: pd_merge_outer_def)
  then show ?thesis
  proof
    assume "m \<in> set (concat (map (rows_for right) left))"
    then obtain l where "l \<in> set left" and "m \<in> set (rows_for right l)"
      by auto
    then show ?thesis
      using rows_for_cases [of m right l] by blast
  next
    assume "m \<in> right_row ` set (filter (\<lambda>r. fst r \<notin> set (map fst left)) right)"
    then show ?thesis by auto
  qed
qed

lemma merged_frame_cases:
  assumes "m \<in> set (merged_frame sid dr dd)"
  shows "(\<exists>l\<in>set (clean_roster dr sid). m = left_row l) \<or>
         (\<exists>l\<in>set (clean_roster dr sid). \<exists>r\<in>set (clean_downloaded dd). m = both_row l r) \<or>
         (\<exists>r\<in>set (clean_downloaded dd). m = right_row r)"
  using assms merge_row_cases [of m "clean_roster dr sid" "clean_downloaded dd"]
  by (simp add: merged_frame_def)

text \<open>
  Claim C1. A row of the merged frame that came from both tables, which is one that has
  the cells of both, is not matched exactly when its normalized roster grade is ABSENT and
  its normalized downloaded grade is not F, or its normalized roster grade is not ABSENT and
  differs from its normalized downloaded grade; every other row of the frame is matched.
\<close>

theorem mismatch_rule:
  assumes "m \<in> set (merged_frame sid df_roster df_downloaded)"
  shows "(merge_indicator m = both \<longrightarrow>
            (row_matched (result_row_of base_name m) = False \<longleftrightarrow>
               (normalize_grade (Letter_Grade m) = ''ABSENT'' \<and>
                  normalize_grade (Approved_final_grade m) \<noteq> ''F'') \<or>
               (normalize_grade (Letter_Grade m) \<noteq> ''ABSENT'' \<and>
                  normalize_grade (Letter_Grade m) \<noteq> normalize_grade (Approved_final_grade m)))) \<and>
         (merge_indicator m \<noteq> both \<longrightarrow> row_matched (result_row_of base_name m) = True) \<and>
         (merge_indicator m = both \<longleftrightarrow> Letter_Grade m \<noteq> NaN \<and> Approved_final_grade m \<noteq> NaN)"
proof -
  have rule: "row_matched (result_row_of base_name m) = (\<not> mismatch m)"
    by (simp add: result_row_of_def matched_def)
  have origin: "merge_indicator m = both \<longleftrightarrow> Letter_Grade m \<noteq> NaN \<and> Approved_final_grade m \<noteq> NaN"
    using merged_frame_cases [OF assms]
    by (auto simp add: left_row_def both_row_def right_row_def)
  show ?thesis
    unfolding rule using origin
    by (simp add: mismatch_def norm_roster_grade_def norm_downloaded_grade_def)
qed

lemma scenario_frame_value:
  "scenario_frame =
     [\<lparr>sid_col = Str ''100'', Letter_Grade = Str ''ABSENT'', ID = Str ''100'',
        Approved_final_grade = Str ''F'', Withdrawn = Str [], merge_indicator = both\<rparr>,
      \<lparr>sid_col = Str ''101'', Letter_Grade = Str ''ABSENT'', ID = Str ''101'',
        Approved_final_grade = Str ''D'', Withdrawn = Str [], merge_indicator = both\<rparr>,
      \<lparr>sid_col = Str ''102'', Letter_Grade = Str ''P'', ID = Str ''102'',
        Approved_final_grade = Str ''PASS'', Withdrawn = Str [], merge_indicator = both\<rparr>,
      \<lparr>sid_col = NaN, Letter_Grade = NaN, ID = Str ''103'',
        Approved_final_grade = Str ''W'', Withdrawn = Str [], merge_indicator = right_only\<rparr>]"
  by code_simp

theorem mismatch_rule_witness:
  "scenario_frame ! 1 \<in> set scenario_frame \<and>
   merge_indicator (scenario_frame ! 1) = both \<and>
   normalize_grade (Letter_Grade (scenario_frame ! 1)) = ''ABSENT'' \<and>
   normalize_grade (Approved_final_grade (scenario_frame ! 1)) = ''D'' \<and>
   row_matched (result_row_of ''MATH101'' (scenario_frame ! 1)) = False \<and>
   scenario_frame ! 3 \<in> set scenario_frame \<and>
   merge_indicator (scenario_frame ! 3) = right_only \<and>
   row_matched (result_row_of ''MATH101'' (scenario_frame ! 3)) = True"
proof -
  have m1: "scenario_frame ! 1 \<in> set (merged_frame ''SID''
       \<lparr>columns = [''SID'', ''Letter Grade''],
        rows = [[Str ''100'', Str ''ABSENT''], [Str ''101'', Str ''ABSENT''],
                [Str ''102'', Str ''P'']]\<rparr>
       \<lparr>columns = [''ID'', ''Approved final grade''],
        rows = [[Str ''100'', Str ''F''], [Str ''101'', Str ''D''], [Str ''102'', Str ''PASS''],
                [Str ''103'', Str ''W'']]\<rparr>)"
    unfolding scenario_frame_def [symmetric] by (simp add: scenario_frame_value)
  have m3: "scenario_frame ! 3 \<in> set (merged_frame ''SID''
       \<lparr>columns = [''SID'', ''Letter Grade''],
        rows = [[Str ''100'', Str ''ABSENT''], [Str ''101'', Str ''ABSENT''],
                [Str ''102'', Str ''P'']]\<rparr>
       \<lparr>columns = [''ID'', ''Approved final grade''],
        rows = [[Str ''100'', Str ''F''], [Str ''101'', Str ''D''], [Str ''102'', Str ''PASS''],
                [Str ''103'', Str ''W'']]\<rparr>)"
    unfolding scenario_frame_def [symmetric] by (simp add: scenario_frame_value)
  have i1: "merge_indicator (scenario_frame ! 1) = both"
    and i3: "merge_indicator (scenario_frame ! 3) = right_only"
    by (simp_all add: scenario_frame_value)
  have r: "normalize_grade (Letter_Grade (scenario_frame ! 1)) = ''ABSENT''"
    and d: "normalize_grade (Approved_final_grade (scenario_frame ! 1)) = ''D''"
    unfolding scenario_frame_value by code_simp+
  from mismatch_rule [OF m1, of "''MATH101''"] mismatch_rule [OF m3, of "''MATH101''"]
    i1 i3 r d m1 m3
  show ?thesis
    unfolding scenario_frame_def [symmetric] by simp
qed

section \<open>Withdrawals\<close>

lemma clean_downloaded_cells:
  assumes "r \<in> set (clean_downloaded dd)"
  shows "\<exists>(a, w)\<in>set (zip (column dd ''Approved final grade'') (withdrawn_column dd)).
           fst (snd r) = upper (strip (astype_str a)) \<and> snd (snd r) = upper (strip (astype_str w))"
proof -
  define f where "f = (\<lambda>c. upper (strip (astype_str c)))"
  define as where "as = column dd ''Approved final grade''"
  define ws where "ws = withdrawn_column dd"
  from assms have "(fst r, snd r) \<in> set (zip (map (\<lambda>c. strip (astype_str c)) (column dd ''ID''))
      (zip (map f as) (map f ws)))"
    unfolding clean_downloaded_def f_def as_def ws_def by simp
  then have "snd r \<in> set (zip (map f as) (map f ws))"
    by (rule set_zip_rightD)
  then obtain n where n: "n < length as" "n < length ws"
    and eq: "snd r = (f (as ! n), f (ws ! n))"
    by (auto simp add: in_set_zip)
  from n have "(as ! n, ws ! n) \<in> set (zip as ws)"
    by (auto simp add: in_set_zip intro!: exI [of _ n])
  with eq show ?thesis
    unfolding f_def as_def ws_def by (auto intro!: bexI [of _ "(as ! n, ws ! n)"] simp: as_def ws_def)
qed

lemma mixed_frame_verdicts:
  "map (\<lambda>m. (is_withdrawn m, mismatch m)) mixed_frame =
     [(False, False), (False, True), (True, True), (True, False)]"
  by code_simp

text \<open>
  Claim C5. A row of the merged frame is withdrawn exactly when its approved grade is W
  or its withdrawn flag is WITHDRAWN, where the row either has no downloaded side and is
  not withdrawn, or carries the trimmed and uppercased approved grade and flag of one row
  of the downloaded table. The verdict on the grades is independent of it: the rows of a
  frame show all four combinations, one of them withdrawn and mismatched.
\<close>

theorem withdrawn_rule:
  assumes "m \<in> set (merged_frame sid df_roster df_downloaded)"
  shows "(row_is_withdrawn (result_row_of base_name m) \<longleftrightarrow>
            Approved_final_grade m = Str ''W'' \<or> Withdrawn m = Str ''WITHDRAWN'') \<and>
         ((merge_indicator m = left_only \<and> Approved_final_grade m = NaN \<and> Withdrawn m = NaN \<and>
             \<not> row_is_withdrawn (result_row_of base_name m)) \<or>
          (\<exists>(a, w)\<in>set (zip (column df_downloaded ''Approved final grade'')
                            (withdrawn_column df_downloaded)).
             Approved_final_grade m = Str (upper (strip (astype_str a))) \<and>
             Withdrawn m = Str (upper (strip (astype_str w))) \<and>
             (row_is_withdrawn (result_row_of base_name m) \<longleftrightarrow>
                upper (strip (astype_str a)) = ''W'' \<or>
                upper (strip (astype_str w)) = ''WITHDRAWN''))) \<and>
         (\<exists>x\<in>set mixed_frame. is_withdrawn x \<and> mismatch x) \<and>
         (\<exists>x\<in>set mixed_frame. is_withdrawn x \<and> \<not> mismatch x) \<and>
         (\<exists>x\<in>set mixed_frame. \<not> is_withdrawn x \<and> mismatch x) \<and>
         (\<exists>x\<in>set mixed_frame. \<not> is_withdrawn x \<and> \<not> mismatch x)"
proof -
  have w: "row_is_withdrawn (result_row_of base_name m) \<longleftrightarrow>
      Approved_final_grade m = Str ''W'' \<or> Withdrawn m = Str ''WITHDRAWN''"
    by (simp add: result_row_of_def is_withdrawn_def)
  have side: "(merge_indicator m = left_only \<and> Approved_final_grade m = NaN \<and> Withdrawn m = NaN) \<or>
      (\<exists>(a, w)\<in>set (zip (column df_downloaded ''Approved final grade'')
                            (withdrawn_column df_downloaded)).
             Approved_final_grade m = Str (upper (strip (astype_str a))) \<and>
             Withdrawn m = Str (upper (strip (astype_str w))))"
    using merged_frame_cases [OF assms]
  proof (elim disjE bexE)
    fix l assume "m = left_row l"
    then show ?thesis by (simp add: left_row_def)
  next
    fix l r assume "r \<in> set (clean_downloaded df_downloaded)" and "m = both_row l r"
    then show ?thesis
      using clean_downloaded_cells [of r df_downloaded] by (auto simp add: both_row_def)
  next
    fix r assume "r \<in> set (clean_downloaded df_downloaded)" and "m = right_row r"
    then show ?thesis
      using clean_downloaded_cells [of r df_downloaded] by (auto simp add: right_row_def)
  qed
  have four: "(\<exists>x\<in>set mixed_frame. is_withdrawn x \<and> mismatch x) \<and>
         (\<exists>x\<in>set mixed_frame. is_withdrawn x \<and> \<not> mismatch x) \<and>
         (\<exists>x\<in>set mixed_frame. \<not> is_withdrawn x \<and> mismatch x) \<and>
         (\<exists>x\<in>set mixed_frame. \<not> is_withdrawn x \<and> \<not> mismatch x)"
  proof -
    have "set (map (\<lambda>m. (is_withdrawn m, mismatch m)) mixed_frame) =
        {(False, False), (False, True), (True, True), (True, False)}"
      by (simp only: mixed_frame_verdicts) auto
    then have "(\<lambda>m. (is_withdrawn m, mismatch m)) ` set mixed_frame =
        {(False, False), (False, True), (True, True), (True, False)}"
      by simp
    then have "\<And>p. p \<in> {(False, False), (False, True), (True, True), (True, False)} \<Longrightarrow>
        \<exists>x\<in>set mixed_frame. (is_withdrawn x, mismatch x) = p"
      by (metis (mono_tags, lifting) imageE)
    from this [of "(True, True)"] this [of "(True, False)"] this [of "(False, True)"]
      this [of "(False, False)"]
    show ?thesis by simp
  qed
  from side have side': "(merge_indicator m = left_only \<and> Approved_final_grade m = NaN \<and> Withdrawn m = NaN \<and>
             \<not> row_is_withdrawn (result_row_of base_name m)) \<or>
          (\<exists>(a, w)\<in>set (zip (column df_downloaded ''Approved final grade'')
                            (withdrawn_column df_downloaded)).
             Approved_final_grade m = Str (upper (strip (astype_str a))) \<and>
             Withdrawn m = Str (upper (strip (astype_str w))) \<and>
             (row_is_withdrawn (result_row_of base_name m) \<longleftrightarrow>
                upper (strip (astype_str a)) = ''W'' \<or>
                upper (strip (astype_str w)) = ''WITHDRAWN''))"
    unfolding w by auto
  from w side' four show ?thesis
    by blast
qed

lemma mixed_frame_value:
  "mixed_frame =
     [\<lparr>sid_col = Str ''1'', Letter_Grade = Str ''A'', ID = Str ''1'',
        Approved_final_grade = Str ''A'', Withdrawn = Str ''NAN'', merge_indicator = both\<rparr>,
      \<lparr>sid_col = Str ''2'', Letter_Grade = Str ''A'', ID = Str ''2'',
        Approved_final_grade = Str ''B'', Withdrawn = Str ''NAN'', merge_indicator = both\<rparr>,
      \<lparr>sid_col = Str ''3'', Letter_Grade = Str ''A'', ID = Str ''3'',
        Approved_final_grade = Str ''W'', Withdrawn = Str ''NAN'', merge_indicator = both\<rparr>,
      \<lparr>sid_col = Str ''4'', Letter_Grade = Str ''A'', ID = Str ''4'',
        Approved_final_grade = Str ''A'', Withdrawn = Str ''WITHDRAWN'', merge_indicator = both\<rparr>]"
  by code_simp

theorem withdrawn_rule_witness:
  "mixed_frame ! 2 \<in> set mixed_frame \<and>
   Approved_final_grade (mixed_frame ! 2) = Str ''W'' \<and>
   row_is_withdrawn (result_row_of ''BIO110'' (mixed_frame ! 2)) = True \<and>
   mixed_frame ! 3 \<in> set mixed_frame \<and>
   Withdrawn (mixed_frame ! 3) = Str ''WITHDRAWN'' \<and>
   row_is_withdrawn (result_row_of ''BIO110'' (mixed_frame ! 3)) = True \<and>
   mixed_frame ! 0 \<in> set mixed_frame \<and>
   row_is_withdrawn (result_row_of ''BIO110'' (mixed_frame ! 0)) = False"
proof -
  have mem: "mixed_frame ! 2 \<in> set mixed_frame" "mixed_frame ! 3 \<in> set mixed_frame"
    "mixed_frame ! 0 \<in> set mixed_frame"
    by (simp_all add: mixed_frame_value)
  have cells: "Approved_final_grade (mixed_frame ! 2) = Str ''W''"
    "Withdrawn (mixed_frame ! 3) = Str ''WITHDRAWN''"
    "Approved_final_grade (mixed_frame ! 0) = Str ''A''"
    "Withdrawn (mixed_frame ! 0) = Str ''NAN''"
    by (simp_all add: mixed_frame_value)
  note at2 = withdrawn_rule [OF mem(1) [unfolded mixed_frame_def], folded mixed_frame_def]
    and at3 = withdrawn_rule [OF mem(2) [unfolded mixed_frame_def], folded mixed_frame_def]
    and at0 = withdrawn_rule [OF mem(3) [unfolded mixed_frame_def], folded mixed_frame_def]
  from at2 [of "''BIO110''"] at3 [of "''BIO110''"] at0 [of "''BIO110''"] mem cells show ?thesis
    by simp
qed

section \<open>Two runs on the same files\<close>

lemma same_verdict_refl: "same_verdict a a"
  by (simp add: same_verdict_def)

lemma same_run_refl: "same_run a a"
  by (simp add: same_run_def list_all2_refl same_verdict_refl)

lemma same_run_merge:
  assumes "same_run a b" and "same_run c d"
  shows "same_run (merge_state a c) (merge_state b d)"
  using assms by (simp add: same_run_def merge_state_def list_all2_appendI)

lemma read_roster_file_path:
  "read_roster_file p w = read_roster_file q w \<or>
   (read_roster_file p w = Inl (ValueError (header_not_found p)) \<and>
    read_roster_file q w = Inl (ValueError (header_not_found q)))"
  by (simp add: read_roster_file_def split: sum.splits option.splits)

lemma same_run_contribution: "same_run (contribution p dd rf) (contribution q dd rf)"
proof -
  consider (same) "read_roster_file p (getvalue rf) = read_roster_file q (getvalue rf)"
    | (miss) "read_roster_file p (getvalue rf) = Inl (ValueError (header_not_found p))"
        "read_roster_file q (getvalue rf) = Inl (ValueError (header_not_found q))"
    using read_roster_file_path [of p "getvalue rf" q] by blast
  then show ?thesis
  proof cases
    case same
    then have "contribution p dd rf = contribution q dd rf"
      unfolding contribution_def loop_body_def Let_def
      by (simp split: option.splits)
    then show ?thesis
      by (simp add: same_run_refl)
  next
    case miss
    have v: "same_verdict (error_result b (header_not_found p)) (error_result b (header_not_found q))" for b
      unfolding same_verdict_def error_result_def by auto
    show ?thesis
      unfolding contribution_def loop_body_def Let_def
      by (simp add: miss same_run_refl split: option.splits)
         (simp add: same_run_def append_result_def v init_state_def)
  qed
qed

lemma same_run_foldl:
  "same_run (foldl (loop_body mk dd) init_state rfs) (foldl (loop_body mk' dd) init_state rfs)"
proof (induction rfs rule: rev_induct)
  case Nil
  show ?case by (simp add: same_run_refl)
next
  case (snoc rf rfs)
  define a where "a = foldl (loop_body mk dd) init_state rfs"
  define b where "b = foldl (loop_body mk' dd) init_state rfs"
  from snoc have ab: "same_run a b"
    by (simp add: a_def b_def)
  then have "temp_files a = temp_files b"
    by (simp add: same_run_def)
  then have "same_run (contribution (mk (temp_files a)) dd rf) (contribution (mk' (temp_files b)) dd rf)"
    by (simp add: same_run_contribution)
  with ab have "same_run (loop_body mk dd a rf) (loop_body mk' dd b rf)"
    by (simp add: loop_body_merge same_run_merge)
  then show ?case
    by (simp add: a_def b_def)
qed

lemma same_run_run_loop: "same_run (run_loop mk rfs dfs) (run_loop mk' rfs dfs)"
  by (simp add: run_loop_def same_run_foldl)

text \<open>
  Claim C10, as amended. Two runs on the same roster files and downloaded files, whatever
  names their temporary files get, return the same summary and the same collected
  unmatched rows, and outcome by outcome the same course, status, rows, unmatched rows and
  withdrawn identifiers; the messages are the same too, except that the message of a
  header-not-found error names the temporary file of its run. With the same names for the
  temporary files the outcomes are identical.
\<close>

theorem runs_agree:
  assumes "compare_grades mk rfs dfs = (rs, sm, au)"
    and "compare_grades mk' rfs dfs = (rs', sm', au')"
  shows "sm = sm' \<and> au = au' \<and> length rs = length rs' \<and>
         (\<forall>i<length rs.
            course (rs ! i) = course (rs' ! i) \<and> status (rs ! i) = status (rs' ! i) \<and>
            data (rs ! i) = data (rs' ! i) \<and> unmatched (rs ! i) = unmatched (rs' ! i) \<and>
            withdrawn (rs ! i) = withdrawn (rs' ! i) \<and>
            (message (rs ! i) = message (rs' ! i) \<or>
             (status (rs ! i) = error \<and>
              (\<exists>p q. message (rs ! i) = header_not_found p \<and>
                     message (rs' ! i) = header_not_found q)))) \<and>
         (mk = mk' \<longrightarrow> rs = rs')"
proof -
  note a = compare_grades_run [OF assms(1)] and b = compare_grades_run [OF assms(2)]
  have s: "same_run (run_loop mk rfs dfs) (run_loop mk' rfs dfs)"
    by (rule same_run_run_loop)
  then have l: "list_all2 same_verdict rs rs'"
    by (simp add: same_run_def a(1) b(1))
  from s have "sm = sm'" and "au = au'"
    by (simp_all add: same_run_def a b)
  moreover from l have "length rs = length rs'"
    by (rule list_all2_lengthD)
  moreover from l have "same_verdict (rs ! i) (rs' ! i)" if "i < length rs" for i
    using that by (rule list_all2_nthD)
  moreover have "rs = rs'" if "mk = mk'"
    using that assms by simp
  ultimately show ?thesis
    unfolding same_verdict_def by metis
qed

lemma pair_run_value:
  "pair_run =
     ([\<lparr>course = ''PHYS200'', status = error,
        message = ''Header row with required keywords not found in /tmp/tmp0'',
        data = None, unmatched = [], withdrawn = []\<rparr>,
       \<lparr>course = ''MATH101'', status = success,
        message = ''Processed 4 students, found 1 mismatches, 1 withdrawn'',
        data = Some
          [\<lparr>row_course = ''MATH101'', row_ID_final = ''100'', row_Letter_Grade = Str ''ABSENT'',
            row_Approved_final_grade = Str ''F'', row_matched = True, row_is_withdrawn = False\<rparr>,
           \<lparr>row_course = ''MATH101'', row_ID_final = ''101'', row_Letter_Grade = Str ''ABSENT'',
            row_Approved_final_grade = Str ''D'', row_matched = False, row_is_withdrawn = False\<rparr>,
           \<lparr>row_course = ''MATH101'', row_ID_final = ''102'', row_Letter_Grade = Str ''P'',
            row_Approved_final_grade = Str ''PASS'', row_matched = True, row_is_withdrawn = False\<rparr>,
           \<lparr>row_course = ''MATH101'', row_ID_final = ''103'', row_Letter_Grade = NaN,
            row_Approved_final_grade = Str ''W'', row_matched = True, row_is_withdrawn = True\<rparr>],
        unmatched =
          [\<lparr>row_course = ''MATH101'', row_ID_final = ''101'', row_Letter_Grade = Str ''ABSENT'',
            row_Approved_final_grade = Str ''D'', row_matched = False, row_is_withdrawn = False\<rparr>],
        withdrawn = [''103'']\<rparr>],
      \<lparr>total_courses = 2, courses_with_mismatches = 1, total_mismatches = 1,
        total_students = 4, unique_students = 4, withdrawn_students = 1\<rparr>,
      [[\<lparr>row_course = ''MATH101'', row_ID_final = ''101'', row_Letter_Grade = Str ''ABSENT'',
         row_Approved_final_grade = Str ''D'', row_matched = False, row_is_withdrawn = False\<rparr>]])"
  by code_simp

lemma pair_run_again_message:
  "message (fst pair_run_again ! 0) =
     ''Header row with required keywords not found in /var/tmp/x0''"
  by code_simp

theorem runs_agree_witness:
  "fst (snd pair_run) = fst (snd pair_run_again) \<and>
   snd (snd pair_run) = snd (snd pair_run_again) \<and>
   length (fst pair_run) = 2 \<and> length (fst pair_run_again) = 2 \<and>
   status (fst pair_run_again ! 0) = error \<and>
   data (fst pair_run_again ! 1) = data (fst pair_run ! 1) \<and>
   message (fst pair_run ! 0) = header_not_found ''/tmp/tmp0'' \<and>
   message (fst pair_run_again ! 0) = header_not_found ''/var/tmp/x0''"
proof -
  have a: "compare_grades tmp_path [bare_roster, math_roster] [bare_downloaded, math_downloaded] =
      (fst pair_run, fst (snd pair_run), snd (snd pair_run))"
    by (simp add: pair_run_def)
  have b: "compare_grades other_tmp_path [bare_roster, math_roster] [bare_downloaded, math_downloaded] =
      (fst pair_run_again, fst (snd pair_run_again), snd (snd pair_run_again))"
    by (simp add: pair_run_again_def)
  have l: "length (fst pair_run) = 2" and e: "status (fst pair_run ! 0) = error"
    and m: "message (fst pair_run ! 0) = header_not_found ''/tmp/tmp0''"
    by (simp_all add: pair_run_value header_not_found_def)
  have m': "message (fst pair_run_again ! 0) = header_not_found ''/var/tmp/x0''"
    by (simp add: pair_run_again_message header_not_found_def)
  from runs_agree [OF a b] l have
    "fst (snd pair_run) = fst (snd pair_run_again)"
    "snd (snd pair_run) = snd (snd pair_run_again)"
    "length (fst pair_run_again) = 2"
    "status (fst pair_run ! 0) = status (fst pair_run_again ! 0)"
    "data (fst pair_run ! 1) = data (fst pair_run_again ! 1)"
    by simp_all
  with l e m m' show ?thesis
    by simp
qed

theorem runs_agree_counterexample:
  "compare_grades tmp_path [bare_roster, math_roster] [bare_downloaded, math_downloaded] \<noteq>
   compare_grades other_tmp_path [bare_roster, math_roster] [bare_downloaded, math_downloaded]"
proof
  assume "compare_grades tmp_path [bare_roster, math_roster] [bare_downloaded, math_downloaded] =
    compare_grades other_tmp_path [bare_roster, math_roster] [bare_downloaded, math_downloaded]"
  then have "pair_run = pair_run_again"
    by (simp add: pair_run_def pair_run_again_def)
  then have "message (fst pair_run ! 0) = message (fst pair_run_again ! 0)"
    by simp
  then show False
    by (simp add: pair_run_value pair_run_again_message)
qed

section \<open>A course in the middle of a run\<close>

lemma results_contribution: "\<exists>r. results (contribution p dd rf) = [r]"
  using contribution_cases [of p dd rf]
  by (auto simp add: append_result_def init_state_def opened_def tally_frame_def Let_def)

lemma length_results_foldl:
  "length (results (foldl (loop_body mk dd) init_state rfs)) = length rfs"
proof (induction rfs rule: rev_induct)
  case Nil
  show ?case by (simp add: init_state_def)
next
  case (snoc rf rfs)
  define a where "a = foldl (loop_body mk dd) init_state rfs"
  obtain r where r: "results (contribution (mk (temp_files a)) dd rf) = [r]"
    using results_contribution by blast
  have "foldl (loop_body mk dd) init_state (rfs @ [rf]) =
      merge_state a (contribution (mk (temp_files a)) dd rf)"
    unfolding a_def foldl_append by (simp only: foldl.simps loop_body_merge)
  with snoc r show ?case
    by (simp add: a_def [symmetric] merge_state_def)
qed

lemma tallies_merge_zero:
  assumes "tallies b = tallies init_state" and "all_unmatched b = []"
  shows "tallies (merge_state a b) = tallies a" and "all_unmatched (merge_state a b) = all_unmatched a"
  using assms by (simp_all add: tallies_def merge_state_def add_summary_def init_state_def)

lemma tallies_merge_cong:
  assumes "tallies a = tallies a'" and "tallies b = tallies b'"
  shows "tallies (merge_state a b) = tallies (merge_state a' b')"
  using assms by (simp add: tallies_def merge_state_def add_summary_def)

lemma same_run_tallies:
  assumes "same_run a b"
  shows "tallies a = tallies b" and "all_unmatched a = all_unmatched b"
  using assms by (simp_all add: same_run_def tallies_def)

lemma contribution_error:
  assumes "results (contribution p dd rf) = [r]" and "status r = error"
  shows "tallies (contribution p dd rf) = tallies init_state"
    and "all_unmatched (contribution p dd rf) = []"
  using contribution_cases [of p dd rf] assms
  by (auto simp add: append_result_def init_state_def opened_def tally_frame_def Let_def
      tallies_def)

text \<open>The run over a list of roster files with one file singled out.\<close>

lemma run_loop_split:
  fixes mk dd xs rf ys
  defines "a \<equiv> foldl (loop_body mk dd) init_state xs"
  defines "c \<equiv> contribution (mk (temp_files a)) dd rf"
  shows "foldl (loop_body mk dd) init_state (xs @ rf # ys) =
           merge_state (merge_state a c)
             (foldl (loop_body (\<lambda>k. mk (temp_files (merge_state a c) + k)) dd) init_state ys)"
    and "foldl (loop_body mk dd) init_state (xs @ ys) =
           merge_state a (foldl (loop_body (\<lambda>k. mk (temp_files a + k)) dd) init_state ys)"
proof -
  have "foldl (loop_body mk dd) init_state (xs @ rf # ys) =
      foldl (loop_body mk dd) (merge_state a c) ys"
    by (simp add: a_def c_def loop_body_merge)
  then show "foldl (loop_body mk dd) init_state (xs @ rf # ys) =
           merge_state (merge_state a c)
             (foldl (loop_body (\<lambda>k. mk (temp_files (merge_state a c) + k)) dd) init_state ys)"
    by (simp add: foldl_loop_body_merge [of mk dd "merge_state a c"])
  show "foldl (loop_body mk dd) init_state (xs @ ys) =
           merge_state a (foldl (loop_body (\<lambda>k. mk (temp_files a + k)) dd) init_state ys)"
    by (simp add: a_def foldl_loop_body_merge [of mk dd "foldl (loop_body mk dd) init_state xs"])
qed

lemma results_at_split:
  assumes "results c = [r]" and "length (results a) = n"
  shows "results (merge_state (merge_state a c) e) ! n = r"
  using assms by (simp add: merge_state_def nth_append)

text \<open>
  Claim C3. When the outcome of a course of a run is an error, the run has the totals of
  students, of unique students, of mismatches, of courses with mismatches and of withdrawn
  students, and the collected unmatched rows, of the run without that course.
\<close>

theorem error_course_adds_nothing:
  assumes "compare_grades mk (xs @ rf # ys) dfs = (rs, sm, au)"
    and "status (rs ! length xs) = error"
    and "compare_grades mk (xs @ ys) dfs = (rs', sm', au')"
  shows "total_students sm = total_students sm' \<and>
         unique_students sm = unique_students sm' \<and>
         total_mismatches sm = total_mismatches sm' \<and>
         courses_with_mismatches sm = courses_with_mismatches sm' \<and>
         withdrawn_students sm = withdrawn_students sm' \<and>
         au = au'"
proof -
  define dd where "dd = downloaded_dict_of dfs"
  define a where "a = foldl (loop_body mk dd) init_state xs"
  define c where "c = contribution (mk (temp_files a)) dd rf"
  define e where "e = foldl (loop_body (\<lambda>k. mk (temp_files (merge_state a c) + k)) dd) init_state ys"
  define e' where "e' = foldl (loop_body (\<lambda>k. mk (temp_files a + k)) dd) init_state ys"
  have whole: "run_loop mk (xs @ rf # ys) dfs = merge_state (merge_state a c) e"
    and rest: "run_loop mk (xs @ ys) dfs = merge_state a e'"
    unfolding run_loop_def dd_def [symmetric] a_def c_def e_def e'_def
    by (rule run_loop_split)+
  obtain r where r: "results c = [r]"
    unfolding c_def using results_contribution by blast
  have "length (results a) = length xs"
    by (simp add: a_def length_results_foldl)
  with r have "results (run_loop mk (xs @ rf # ys) dfs) ! length xs = r"
    unfolding whole by (rule results_at_split)
  with assms(2) have "status r = error"
    by (simp add: compare_grades_run(1) [OF assms(1)])
  with r have zero: "tallies c = tallies init_state" "all_unmatched c = []"
    unfolding c_def by (rule contribution_error)+
  have "same_run e e'"
    unfolding e_def e'_def by (rule same_run_foldl)
  then have ee: "tallies e = tallies e'" "all_unmatched e = all_unmatched e'"
    by (rule same_run_tallies)+
  have ac: "tallies (merge_state a c) = tallies a"
    and uc: "all_unmatched (merge_state a c) = all_unmatched a"
    using zero by (rule tallies_merge_zero)+
  from ac ee(1) have t: "tallies (merge_state (merge_state a c) e) = tallies (merge_state a e')"
    by (rule tallies_merge_cong)
  have "all_unmatched (merge_state (merge_state a c) e) = all_unmatched (merge_state a c) @ all_unmatched e"
    by (simp add: merge_state_def)
  also have "\<dots> = all_unmatched a @ all_unmatched e'"
    by (simp only: uc ee(2))
  also have "\<dots> = all_unmatched (merge_state a e')"
    by (simp add: merge_state_def)
  finally have u: "all_unmatched (merge_state (merge_state a c) e) = all_unmatched (merge_state a e')" .
  note x = compare_grades_run [OF assms(1)] and y = compare_grades_run [OF assms(3)]
  from t u show ?thesis
    unfolding x y whole rest by (simp add: tallies_def)
qed

lemma alone_run_summary:
  "fst (snd alone_run) =
     \<lparr>total_courses = 1, courses_with_mismatches = 1, total_mismatches = 1,
      total_students = 4, unique_students = 4, withdrawn_students = 1\<rparr>"
  by code_simp

theorem error_course_adds_nothing_witness:
  "status (fst pair_run ! length ([] :: roster_file list)) = error \<and>
   total_students (fst (snd pair_run)) = total_students (fst (snd alone_run)) \<and>
   unique_students (fst (snd pair_run)) = unique_students (fst (snd alone_run)) \<and>
   total_mismatches (fst (snd pair_run)) = total_mismatches (fst (snd alone_run)) \<and>
   courses_with_mismatches (fst (snd pair_run)) = courses_with_mismatches (fst (snd alone_run)) \<and>
   withdrawn_students (fst (snd pair_run)) = withdrawn_students (fst (snd alone_run)) \<and>
   snd (snd pair_run) = snd (snd alone_run) \<and>
   total_courses (fst (snd pair_run)) = 2 \<and> total_courses (fst (snd alone_run)) = 1"
proof -
  have a: "compare_grades tmp_path ([] @ bare_roster # [math_roster]) [bare_downloaded, math_downloaded] =
      (fst pair_run, fst (snd pair_run), snd (snd pair_run))"
    by (simp add: pair_run_def)
  have b: "compare_grades tmp_path ([] @ [math_roster]) [bare_downloaded, math_downloaded] =
      (fst alone_run, fst (snd alone_run), snd (snd alone_run))"
    by (simp add: alone_run_def)
  have e: "status (fst pair_run ! length ([] :: roster_file list)) = error"
    by (simp add: pair_run_value)
  have n: "total_courses (fst (snd pair_run)) = 2" "total_courses (fst (snd alone_run)) = 1"
    by (simp_all add: pair_run_value alone_run_summary)
  from error_course_adds_nothing [OF a e b] e n show ?thesis
    by simp
qed

section \<open>The header row\<close>

lemma find_header_from_Some:
  "find_header_from k g = Some i \<longleftrightarrow>
     k \<le> i \<and> i - k < length g \<and> is_header_row (g ! (i - k)) \<and>
     (\<forall>j<i - k. \<not> is_header_row (g ! j))"
proof (induction g arbitrary: k)
  case Nil
  show ?case by simp
next
  case (Cons row rest)
  show ?case
  proof (cases "is_header_row row")
    case True
    have "k = i" if "k \<le> i" and "\<forall>j<i - k. \<not> is_header_row ((row # rest) ! j)"
    proof (rule ccontr)
      assume "k \<noteq> i"
      with that(1) have "0 < i - k" by simp
      with that(2) have "\<not> is_header_row ((row # rest) ! 0)" by blast
      with True show False by simp
    qed
    with True show ?thesis by auto
  next
    case False
    have "(Suc k \<le> i \<and> i - Suc k < length rest \<and> is_header_row (rest ! (i - Suc k)) \<and>
          (\<forall>j<i - Suc k. \<not> is_header_row (rest ! j))) \<longleftrightarrow>
        (k \<le> i \<and> i - k < length (row # rest) \<and> is_header_row ((row # rest) ! (i - k)) \<and>
          (\<forall>j<i - k. \<not> is_header_row ((row # rest) ! j)))" (is "?l \<longleftrightarrow> ?r")
    proof
      assume l: ?l
      then have d: "i - k = Suc (i - Suc k)" by arith
      have "\<not> is_header_row ((row # rest) ! j)" if "j < i - k" for j
        using that l False d by (cases j) auto
      with l d show ?r by auto
    next
      assume r: ?r
      with False have "i - k \<noteq> 0" by (auto intro: ccontr)
      then have d: "i - k = Suc (i - Suc k)" and "Suc k \<le> i" by arith+
      moreover have "\<not> is_header_row (rest ! j)" if "j < i - Suc k" for j
      proof -
        from that d have "Suc j < i - k" by simp
        with r have "\<not> is_header_row ((row # rest) ! Suc j)" by blast
        then show ?thesis by simp
      qed
      ultimately show ?l using r by auto
    qed
    with False Cons.IH [of "Suc k"] show ?thesis by simp
  qed
qed

lemma find_header_from_None:
  "find_header_from k g = None \<longleftrightarrow> (\<forall>row\<in>set g. \<not> is_header_row row)"
  by (induction g arbitrary: k) auto

lemma find_header_row_Some:
  "find_header_row g = Some i \<longleftrightarrow>
     i < length g \<and> is_header_row (g ! i) \<and> (\<forall>j<i. \<not> is_header_row (g ! j))"
  by (simp add: find_header_row_def find_header_from_Some)

lemma find_header_row_None:
  "find_header_row g = None \<longleftrightarrow> (\<forall>row\<in>set g. \<not> is_header_row row)"
  by (simp add: find_header_row_def find_header_from_None)

lemma is_header_row_tokens:
  "is_header_row row \<longleftrightarrow>
     ''LETTER GRADE'' \<in> (\<lambda>c. strip (upper (astype_str c))) ` set row \<and>
     (\<lambda>c. strip (upper (astype_str c))) ` set row \<inter> {''SID'', ''STUDENT ID''} \<noteq> {}"
  by (simp add: is_header_row_def row_upper_def id_variants_def)

lemma contribution_header_missing:
  assumes "dd (base_name_of (name rf)) = Some d" and "getvalue rf = Inr g"
    and "find_header_row g = None"
  shows "results (contribution p dd rf) = [error_result (base_name_of (name rf)) (header_not_found p)]"
  using assms
  by (simp add: contribution_def loop_body_def Let_def read_roster_file_def append_result_def
      init_state_def)

text \<open>
  Claim C4. A row is a header row when the uppercased and trimmed texts of its cells
  contain LETTER GRADE and one of SID and STUDENT ID. The header locator returns the index,
  from zero, of the first header row of the grid. When the grid has none,
  \<^verbatim>\<open>read_roster_file\<close> raises a ValueError whose message ends with the path it was
  given; in a run, the course of such a roster gets an error outcome with that message for
  the path of its temporary file, the outcomes before it are those of the run without the
  course, and so are the outcomes after it, up to the paths in header-not-found messages.
\<close>

theorem header_locator:
  "(is_header_row row \<longleftrightarrow>
      ''LETTER GRADE'' \<in> (\<lambda>c. strip (upper (astype_str c))) ` set row \<and>
      (\<lambda>c. strip (upper (astype_str c))) ` set row \<inter> {''SID'', ''STUDENT ID''} \<noteq> {}) \<and>
   (find_header_row df_raw = Some i \<longleftrightarrow>
      i < length df_raw \<and> is_header_row (df_raw ! i) \<and> (\<forall>j<i. \<not> is_header_row (df_raw ! j))) \<and>
   ((\<forall>r\<in>set df_raw. \<not> is_header_row r) \<longrightarrow>
      find_header_row df_raw = None \<and>
      read_roster_file file_path (Inr df_raw) =
        Inl (ValueError (''Header row with required keywords not found in '' @ file_path))) \<and>
   ((\<forall>r\<in>set df_raw. \<not> is_header_row r) \<and> getvalue rf = Inr df_raw \<and>
    downloaded_dict_of dfs (base_name_of (name rf)) \<noteq> None \<longrightarrow>
      length (fst (compare_grades mk (xs @ rf # ys) dfs)) = length xs + 1 + length ys \<and>
      fst (compare_grades mk (xs @ rf # ys) dfs) ! length xs =
        error_result (base_name_of (name rf))
          (''Header row with required keywords not found in '' @
             mk (temp_files (run_loop mk xs dfs))) \<and>
      take (length xs) (fst (compare_grades mk (xs @ rf # ys) dfs)) =
        take (length xs) (fst (compare_grades mk (xs @ ys) dfs)) \<and>
      list_all2 same_verdict
        (drop (Suc (length xs)) (fst (compare_grades mk (xs @ rf # ys) dfs)))
        (drop (length xs) (fst (compare_grades mk (xs @ ys) dfs))))"
proof (intro conjI impI)
  show "is_header_row row \<longleftrightarrow>
      ''LETTER GRADE'' \<in> (\<lambda>c. strip (upper (astype_str c))) ` set row \<and>
      (\<lambda>c. strip (upper (astype_str c))) ` set row \<inter> {''SID'', ''STUDENT ID''} \<noteq> {}"
    by (rule is_header_row_tokens)
  show "find_header_row df_raw = Some i \<longleftrightarrow>
      i < length df_raw \<and> is_header_row (df_raw ! i) \<and> (\<forall>j<i. \<not> is_header_row (df_raw ! j))"
    by (rule find_header_row_Some)
next
  assume "\<forall>r\<in>set df_raw. \<not> is_header_row r"
  then show none: "find_header_row df_raw = None"
    by (simp add: find_header_row_None)
  then show "read_roster_file file_path (Inr df_raw) =
      Inl (ValueError (''Header row with required keywords not found in '' @ file_path))"
    by (simp add: read_roster_file_def header_not_found_def)
next
  assume h: "(\<forall>r\<in>set df_raw. \<not> is_header_row r) \<and> getvalue rf = Inr df_raw \<and>
    downloaded_dict_of dfs (base_name_of (name rf)) \<noteq> None"
  define dd where "dd = downloaded_dict_of dfs"
  define a where "a = foldl (loop_body mk dd) init_state xs"
  define c where "c = contribution (mk (temp_files a)) dd rf"
  define e where "e = foldl (loop_body (\<lambda>k. mk (temp_files (merge_state a c) + k)) dd) init_state ys"
  define e' where "e' = foldl (loop_body (\<lambda>k. mk (temp_files a + k)) dd) init_state ys"
  define r where "r = error_result (base_name_of (name rf))
      (''Header row with required keywords not found in '' @ mk (temp_files (run_loop mk xs dfs)))"
  have whole: "run_loop mk (xs @ rf # ys) dfs = merge_state (merge_state a c) e"
    and rest: "run_loop mk (xs @ ys) dfs = merge_state a e'"
    unfolding run_loop_def dd_def [symmetric] a_def c_def e_def e'_def
    by (rule run_loop_split)+
  from h obtain d where d: "dd (base_name_of (name rf)) = Some d"
    by (auto simp add: dd_def)
  from h have "find_header_row df_raw = None"
    by (simp add: find_header_row_None)
  with d h have c: "results c = [r]"
    unfolding c_def r_def
    by (simp add: contribution_header_missing header_not_found_def run_loop_def a_def dd_def)
  have la: "length (results a) = length xs"
    by (simp add: a_def length_results_foldl)
  have le: "length (results e) = length ys"
    by (simp add: e_def length_results_foldl)
  have rs: "fst (compare_grades mk (xs @ rf # ys) dfs) = results a @ r # results e"
    by (simp add: compare_grades_def Let_def whole merge_state_def c)
  have rs': "fst (compare_grades mk (xs @ ys) dfs) = results a @ results e'"
    by (simp add: compare_grades_def Let_def rest merge_state_def)
  have "same_run e e'"
    unfolding e_def e'_def by (rule same_run_foldl)
  then have sv: "list_all2 same_verdict (results e) (results e')"
    by (simp add: same_run_def)
  show "length (fst (compare_grades mk (xs @ rf # ys) dfs)) = length xs + 1 + length ys"
    by (simp add: rs la le)
  show "fst (compare_grades mk (xs @ rf # ys) dfs) ! length xs =
      error_result (base_name_of (name rf))
        (''Header row with required keywords not found in '' @
           mk (temp_files (run_loop mk xs dfs)))"
    unfolding rs r_def [symmetric] using la by (simp add: nth_append)
  show "take (length xs) (fst (compare_grades mk (xs @ rf # ys) dfs)) =
      take (length xs) (fst (compare_grades mk (xs @ ys) dfs))"
    unfolding rs rs' using la by simp
  show "list_all2 same_verdict
      (drop (Suc (length xs)) (fst (compare_grades mk (xs @ rf # ys) dfs)))
      (drop (length xs) (fst (compare_grades mk (xs @ ys) dfs)))"
    unfolding rs rs' using la sv by simp
qed

lemma math_grid_header: "find_header_row math_grid = Some 2"
  by code_simp

lemma bare_grid_rows: "list_all (\<lambda>r. \<not> is_header_row r) bare_grid"
  by code_simp

lemma pair_dict: "downloaded_dict_of [bare_downloaded, math_downloaded] (base_name_of (name bare_roster)) \<noteq> None"
  by code_simp

theorem header_locator_witness:
  "find_header_row math_grid = Some 2 \<and>
   2 < length math_grid \<and> is_header_row (math_grid ! 2) \<and>
   \<not> is_header_row (math_grid ! 0) \<and> \<not> is_header_row (math_grid ! 1) \<and>
   find_header_row bare_grid = None \<and>
   read_roster_file ''/tmp/tmp0'' (Inr bare_grid) =
     Inl (ValueError ''Header row with required keywords not found in /tmp/tmp0'') \<and>
   length (fst pair_run) = 2 \<and>
   fst pair_run ! 0 =
     error_result ''PHYS200'' ''Header row with required keywords not found in /tmp/tmp0'' \<and>
   list_all2 same_verdict (drop 1 (fst pair_run)) (fst alone_run) \<and>
   status (fst pair_run ! 1) = success"
proof -
  note loc = header_locator [of _ math_grid 2]
  have found: "2 < length math_grid \<and> is_header_row (math_grid ! 2) \<and>
      (\<forall>j<2. \<not> is_header_row (math_grid ! j))"
    using loc math_grid_header by blast
  then have before: "\<not> is_header_row (math_grid ! 0)" "\<not> is_header_row (math_grid ! 1)"
    by simp_all
  have none: "\<forall>r\<in>set bare_grid. \<not> is_header_row r"
    using bare_grid_rows by (simp add: list_all_iff)
  have gv: "getvalue bare_roster = Inr bare_grid"
    by (simp add: bare_roster_def roster_of_def)
  note miss = header_locator [of _ bare_grid _ "''/tmp/tmp0''" bare_roster
      "[bare_downloaded, math_downloaded]" tmp_path "[]" "[math_roster]"]
  have nm: "base_name_of (name bare_roster) = ''PHYS200''"
    by code_simp
  have tp: "tmp_path (temp_files (run_loop tmp_path [] [bare_downloaded, math_downloaded])) = ''/tmp/tmp0''"
    by code_simp
  from miss none gv pair_dict have
    "find_header_row bare_grid = None"
    "read_roster_file ''/tmp/tmp0'' (Inr bare_grid) =
       Inl (ValueError (''Header row with required keywords not found in '' @ ''/tmp/tmp0''))"
    "length (fst pair_run) = 2"
    "fst pair_run ! 0 = error_result ''PHYS200''
       (''Header row with required keywords not found in '' @ ''/tmp/tmp0'')"
    "list_all2 same_verdict (drop 1 (fst pair_run)) (fst alone_run)"
    by (simp_all add: pair_run_def alone_run_def nm tp)
  moreover have "status (fst pair_run ! 1) = success"
    by (simp add: pair_run_value)
  ultimately show ?thesis
    using math_grid_header found before by simp
qed

end
